theory Spec2Isabelle
  imports Complex_Main "HOL-Library.Sublist"
begin

section \<open>Python values used by \<^verbatim>\<open>process_emails.py\<close>\<close>

text \<open>
  A Python \<^verbatim>\<open>str\<close> is modelled as a \<^typ>\<open>string\<close>, read as a sequence of code
  points in the range 0..255 (the Latin-1 block of Unicode); code points above 255 are
  outside the model. The character classes below are those of CPython on that range.
  Library functions follow CPython (version 3.11, default settings) and its documentation.
  Exceptions are values of type \<open>exn\<close>; a computation that may raise returns
  \<open>exn + 'a\<close> with \<open>Inl\<close> the exception.
\<close>

datatype exn = ValueError | TypeError | AttributeError | KeyError | CsvError | ApiError

text \<open>\<^verbatim>\<open>str.isspace\<close> per character, \<^verbatim>\<open>str.isdigit\<close> per character (the superscripts
  one, two and three are digits for Python), the decimal digits, and \<^verbatim>\<open>str.lower\<close>.\<close>

definition py_isspace :: "char \<Rightarrow> bool" where
  "py_isspace c = (let n = (of_char c :: int) in
     (9 \<le> n \<and> n \<le> 13) \<or> (28 \<le> n \<and> n \<le> 32) \<or> n = 133 \<or> n = 160)"

definition is_decimal :: "char \<Rightarrow> bool" where
  "is_decimal c = (let n = (of_char c :: int) in 48 \<le> n \<and> n \<le> 57)"

definition py_isdigit :: "char \<Rightarrow> bool" where
  "py_isdigit c = (let n = (of_char c :: int) in
     (48 \<le> n \<and> n \<le> 57) \<or> n = 178 \<or> n = 179 \<or> n = 185)"

definition lower_char :: "char \<Rightarrow> char" where
  "lower_char c = (let n = (of_char c :: int) in
     if (65 \<le> n \<and> n \<le> 90) \<or> (192 \<le> n \<and> n \<le> 214) \<or> (216 \<le> n \<and> n \<le> 222)
     then char_of (n + 32) else c)"

definition str_lower :: "string \<Rightarrow> string" where
  "str_lower s = map lower_char s"

definition str_strip :: "string \<Rightarrow> string" where
  "str_strip s = rev (dropWhile py_isspace (rev (dropWhile py_isspace s)))"

definition str_isdigit :: "string \<Rightarrow> bool" where
  "str_isdigit s = (s \<noteq> [] \<and> list_all py_isdigit s)"

text \<open>\<^verbatim>\<open>s.replace('.', '', 1)\<close>: the first full stop is removed.\<close>

fun remove_first_dot :: "string \<Rightarrow> string" where
  "remove_first_dot [] = []"
| "remove_first_dot (c # cs) = (if c = CHR ''.'' then cs else c # remove_first_dot cs)"

text \<open>The test \<^verbatim>\<open>order_id.replace('.', '', 1).isdigit()\<close> made by both parsers.\<close>

definition numeric_token :: "string \<Rightarrow> bool" where
  "numeric_token s = str_isdigit (remove_first_dot s)"

definition digit_val :: "char \<Rightarrow> int" where
  "digit_val c = (of_char c :: int) - 48"

definition digit_char :: "nat \<Rightarrow> char" where
  "digit_char k = ''0123456789'' ! k"

definition digits_value :: "string \<Rightarrow> int" where
  "digits_value s = foldl (\<lambda>acc c. 10 * acc + digit_val c) 0 s"

text \<open>\<^verbatim>\<open>int(s)\<close> on a string for which \<^verbatim>\<open>s.isdigit()\<close> holds: the decimal value when
  every character is a decimal digit and there are at most 4300 of them (the default limit
  of the conversion), \<^verbatim>\<open>ValueError\<close> otherwise.\<close>

definition int_of_isdigit :: "string \<Rightarrow> exn + int" where
  "int_of_isdigit s =
     (if list_all is_decimal s \<and> int (length s) \<le> 4300 then Inr (digits_value s)
      else Inl ValueError)"

text \<open>The expression \<^verbatim>\<open>int(order_id) if order_id.isdigit() else 0\<close>, which occurs in
  \<^verbatim>\<open>check_notion_entry_exists\<close> and in \<^verbatim>\<open>create_or_update_notion_entry\<close>.\<close>

definition id_number :: "string \<Rightarrow> exn + int" where
  "id_number oid = (if str_isdigit oid then int_of_isdigit oid else Inr 0)"

text \<open>A Python \<^verbatim>\<open>float\<close> produced by \<^verbatim>\<open>float(...)\<close>: the exact decimal value of the
  literal, or one of the special values. Rounding to binary64 is not modelled.\<close>

datatype pyfloat = Fin rat | PosInf | NegInf | NaN

subsection \<open>Calendar dates\<close>

datatype pydate = Date (d_year: int) (d_month: int) (d_day: int)

definition is_leap :: "int \<Rightarrow> bool" where
  "is_leap y = (y mod 4 = 0 \<and> (y mod 100 \<noteq> 0 \<or> y mod 400 = 0))"

definition days_in_month :: "int \<Rightarrow> int \<Rightarrow> int" where
  "days_in_month y m =
     (if m = 2 then (if is_leap y then 29 else 28)
      else if m = 4 \<or> m = 6 \<or> m = 9 \<or> m = 11 then 30 else 31)"

text \<open>The check made by the constructors of \<^verbatim>\<open>datetime.date\<close> and \<^verbatim>\<open>datetime.datetime\<close>.\<close>

definition valid_date :: "pydate \<Rightarrow> bool" where
  "valid_date d = (1 \<le> d_year d \<and> d_year d \<le> 9999 \<and> 1 \<le> d_month d \<and> d_month d \<le> 12
     \<and> 1 \<le> d_day d \<and> d_day d \<le> days_in_month (d_year d) (d_month d))"

definition pad2 :: "int \<Rightarrow> string" where
  "pad2 n = [digit_char (nat (n div 10 mod 10)), digit_char (nat (n mod 10))]"

definition pad4 :: "int \<Rightarrow> string" where
  "pad4 n = [digit_char (nat (n div 1000 mod 10)), digit_char (nat (n div 100 mod 10)),
             digit_char (nat (n div 10 mod 10)), digit_char (nat (n mod 10))]"

text \<open>\<^verbatim>\<open>dt.strftime('%Y-%m-%d')\<close>, with the year zero-padded to four digits as the
  library documents \<^verbatim>\<open>%Y\<close>. (The C library of some platforms prints a year below
  1000 without the padding; the model follows the documentation.)\<close>

definition strftime_ymd :: "pydate \<Rightarrow> string" where
  "strftime_ymd d = pad4 (d_year d) @ ''-'' @ pad2 (d_month d) @ ''-'' @ pad2 (d_day d)"

section \<open>Configuration and records\<close>

text \<open>The environment variables read by the program. Those read with a default are
  strings; those read without one may be absent (\<^verbatim>\<open>None\<close>).\<close>

record config =
  csv1_source_name :: string
  csv1_amount_field :: "string option"
  csv1_id_field :: "string option"
  csv1_date_field :: "string option"
  csv2_source_name :: string
  csv2_amount_field :: "string option"
  csv2_id_field :: "string option"
  csv2_date_field :: "string option"
  csv2_skip_rows :: int
  notion_source_property :: string
  notion_amount_property :: string
  notion_id_property :: string
  notion_date_property :: string
  notion_checkbox_property :: string

text \<open>The dictionary built by both parsers for one accepted row.\<close>

record entry =
  source :: string
  order_amount :: pyfloat
  order_id :: string
  order_date :: string

text \<open>A Python \<^verbatim>\<open>dict\<close> keeps insertion order; assigning to a key that is present
  replaces its value in place.\<close>

fun dict_set :: "'k \<Rightarrow> 'v \<Rightarrow> ('k \<times> 'v) list \<Rightarrow> ('k \<times> 'v) list" where
  "dict_set k v [] = [(k, v)]"
| "dict_set k v ((k', v') # kvs) = (if k' = k then (k, v) # kvs else (k', v') # dict_set k v kvs)"

definition dict_of :: "('k \<times> 'v) list \<Rightarrow> ('k \<times> 'v) list" where
  "dict_of kvs = foldl (\<lambda>d (k, v). dict_set k v d) [] kvs"

section \<open>The record store\<close>

text \<open>
  Modelled from the spec: the record store collaborator (section 6:
  \<^verbatim>\<open>findByNumericKey\<close>, \<^verbatim>\<open>createRecord\<close>, \<^verbatim>\<open>updateRecord\<close>), which the program reaches
  through the Notion client library. The store holds pages numbered in creation order;
  a query returns the matching pages, oldest first. Every request is recorded, and a
  request fails (raises) exactly when the next scheduled fault says so. The store accepts
  every write that is not scheduled to fail.
\<close>

datatype pynum = PInt int | PFloat pyfloat

datatype prop_value = Title string | Number pynum | DateStart string | Checkbox bool

type_synonym properties = "(string \<times> prop_value) list"

datatype request = Query string int | Update nat properties | Create properties

record notion =
  pages :: "nat \<Rightarrow> properties option"
  next_id :: nat
  faults :: "bool list"
  requests :: "request list"
  error_log :: "string list"

definition num_equals :: "pynum \<Rightarrow> int \<Rightarrow> bool" where
  "num_equals n k = (case n of PInt i \<Rightarrow> i = k | PFloat (Fin r) \<Rightarrow> r = of_int k | PFloat _ \<Rightarrow> False)"

definition page_matches :: "notion \<Rightarrow> string \<Rightarrow> int \<Rightarrow> nat \<Rightarrow> bool" where
  "page_matches s prop k i =
     (case pages s i of None \<Rightarrow> False
      | Some ps \<Rightarrow> (case map_of ps prop of Some (Number n) \<Rightarrow> num_equals n k | _ \<Rightarrow> False))"

definition find_by_key :: "notion \<Rightarrow> string \<Rightarrow> int \<Rightarrow> nat list" where
  "find_by_key s prop k = filter (page_matches s prop k) [0 ..< next_id s]"

definition api_call :: "request \<Rightarrow> notion \<Rightarrow> bool \<times> notion" where
  "api_call r s =
     (case faults s of
        [] \<Rightarrow> (False, s\<lparr>requests := requests s @ [r]\<rparr>)
      | f # fs \<Rightarrow> (f, s\<lparr>faults := fs, requests := requests s @ [r]\<rparr>))"

definition notion_databases_query :: "string \<Rightarrow> int \<Rightarrow> notion \<Rightarrow> (exn + nat list) \<times> notion" where
  "notion_databases_query prop k s =
     (case api_call (Query prop k) s of
        (True, s') \<Rightarrow> (Inl ApiError, s')
      | (False, s') \<Rightarrow> (Inr (find_by_key s' prop k), s'))"

definition notion_pages_update :: "nat \<Rightarrow> properties \<Rightarrow> notion \<Rightarrow> (exn + unit) \<times> notion" where
  "notion_pages_update pid props s =
     (case api_call (Update pid props) s of
        (True, s') \<Rightarrow> (Inl ApiError, s')
      | (False, s') \<Rightarrow>
          (case (if pid < next_id s' then pages s' pid else None) of
             None \<Rightarrow> (Inl ApiError, s')
           | Some old \<Rightarrow>
               (Inr (), s'\<lparr>pages := (pages s')(pid \<mapsto> foldl (\<lambda>d (k, v). dict_set k v d) old props)\<rparr>)))"

definition notion_pages_create :: "properties \<Rightarrow> notion \<Rightarrow> (exn + nat) \<times> notion" where
  "notion_pages_create props s =
     (case api_call (Create props) s of
        (True, s') \<Rightarrow> (Inl ApiError, s')
      | (False, s') \<Rightarrow>
          (Inr (next_id s'), s'\<lparr>pages := (pages s')(next_id s' \<mapsto> props), next_id := Suc (next_id s')\<rparr>))"

section \<open>Reconciliation: \<^verbatim>\<open>check_notion_entry_exists\<close> and \<^verbatim>\<open>create_or_update_notion_entry\<close>\<close>

text \<open>The query filters on the property named \<^verbatim>\<open>Order ID\<close>, whatever the configured
  name of the id property is. Any exception gives \<^verbatim>\<open>None\<close>.\<close>

definition check_notion_entry_exists :: "string \<Rightarrow> notion \<Rightarrow> nat option \<times> notion" where
  "check_notion_entry_exists oid s =
     (case id_number oid of
        Inl e \<Rightarrow> (None, s)
      | Inr k \<Rightarrow>
          (case notion_databases_query ''Order ID'' k s of
             (Inl e, s') \<Rightarrow> (None, s')
           | (Inr [], s') \<Rightarrow> (None, s')
           | (Inr (r # rs), s') \<Rightarrow> (Some r, s')))"

definition log_error :: "string \<Rightarrow> notion \<Rightarrow> notion" where
  "log_error msg s = s\<lparr>error_log := error_log s @ [msg]\<rparr>"

definition entry_properties :: "config \<Rightarrow> pydate \<Rightarrow> entry \<Rightarrow> int \<Rightarrow> properties" where
  "entry_properties cfg today e k = dict_of
     [(notion_source_property cfg, Title (source e)),
      (notion_amount_property cfg, Number (PFloat (order_amount e))),
      (notion_id_property cfg, Number (PInt k)),
      (notion_date_property cfg,
         DateStart (if order_date e \<noteq> [] \<and> str_strip (order_date e) \<noteq> []
                    then order_date e else strftime_ymd today)),
      (notion_checkbox_property cfg, Checkbox True)]"

definition create_or_update_notion_entry :: "config \<Rightarrow> pydate \<Rightarrow> entry \<Rightarrow> notion \<Rightarrow> notion" where
  "create_or_update_notion_entry cfg today e s =
     (if order_id e = [] \<or> str_strip (order_id e) = [] then s
      else
        (case check_notion_entry_exists (order_id e) s of
           (existing, s1) \<Rightarrow>
             (case id_number (order_id e) of
                Inl ex \<Rightarrow> log_error ''Notion error'' s1
              | Inr k \<Rightarrow>
                  (case existing of
                     Some pid \<Rightarrow>
                       (case notion_pages_update pid (entry_properties cfg today e k) s1 of
                          (Inl ex, s2) \<Rightarrow> log_error ''Notion error'' s2
                        | (Inr u, s2) \<Rightarrow> s2)
                   | None \<Rightarrow>
                       (case notion_pages_create (entry_properties cfg today e k) s1 of
                          (Inl ex, s2) \<Rightarrow> log_error ''Notion error'' s2
                        | (Inr pid, s2) \<Rightarrow> s2)))))"

definition default_config :: config where
  "default_config = \<lparr>
     csv1_source_name = ''Source1'', csv1_amount_field = None, csv1_id_field = None,
     csv1_date_field = None,
     csv2_source_name = ''Source2'', csv2_amount_field = None, csv2_id_field = None,
     csv2_date_field = None, csv2_skip_rows = 0,
     notion_source_property = ''Source'', notion_amount_property = ''Order Amount'',
     notion_id_property = ''Order ID'', notion_date_property = ''Order Date'',
     notion_checkbox_property = ''Sum-er'' \<rparr>"

definition empty_store :: notion where
  "empty_store = \<lparr> pages = (\<lambda>i. None), next_id = 0, faults = [], requests = [], error_log = [] \<rparr>"

section \<open>Regular expressions\<close>

text \<open>
  The fragment of Python's \<^verbatim>\<open>re\<close> syntax that the program and \<^verbatim>\<open>datetime.strptime\<close>
  use: literals, character classes, sequences, alternatives, an optional item, greedy
  \<^verbatim>\<open>*\<close> and \<^verbatim>\<open>+\<close> over a character class, and capturing groups. Matching is by
  backtracking: \<open>rx_match\<close> returns every way to match a prefix of the input, as
  (matched text, rest, captures), in the order in which the backtracking matcher tries
  them; the head of the list is the match that \<^verbatim>\<open>re\<close> reports.
\<close>

datatype citem = CChar char | CRange char char | CSpace | CDigit

datatype cclass = In "citem list" | NotIn "citem list"

fun in_citem :: "citem \<Rightarrow> char \<Rightarrow> bool" where
  "in_citem (CChar a) c = (c = a)"
| "in_citem (CRange a b) c = ((of_char a :: int) \<le> of_char c \<and> (of_char c :: int) \<le> of_char b)"
| "in_citem CSpace c = py_isspace c"
| "in_citem CDigit c = is_decimal c"

fun in_class :: "cclass \<Rightarrow> char \<Rightarrow> bool" where
  "in_class (In items) c = list_ex (\<lambda>i. in_citem i c) items"
| "in_class (NotIn items) c = (\<not> list_ex (\<lambda>i. in_citem i c) items)"

datatype rx =
    Lit char
  | Cls cclass
  | Star cclass
  | Plus cclass
  | Opt rx
  | Seq "rx list"
  | Alt "rx list"
  | Grp string rx

type_synonym captures = "(string \<times> string) list"

type_synonym rx_result = "string \<times> string \<times> captures"

text \<open>With \<^verbatim>\<open>re.IGNORECASE\<close> (flag \<open>ic\<close>) a literal matches both cases of a letter. No
  class of the program's patterns contains a letter.\<close>

definition lit_eq :: "bool \<Rightarrow> char \<Rightarrow> char \<Rightarrow> bool" where
  "lit_eq ic a c = (if ic then lower_char a = lower_char c else a = c)"

text \<open>The ways a greedy repetition of a class can stop, longest first.\<close>

fun greedy :: "cclass \<Rightarrow> string \<Rightarrow> (string \<times> string) list" where
  "greedy k [] = [([], [])]"
| "greedy k (c # cs) =
     (if in_class k c then map (\<lambda>(m, r). (c # m, r)) (greedy k cs) @ [([], c # cs)]
      else [([], c # cs)])"

definition prepend :: "string \<Rightarrow> rx_result list \<Rightarrow> rx_result list" where
  "prepend m results = map (\<lambda>(m', rest, caps). (m @ m', rest, caps)) results"

fun rx_match :: "bool \<Rightarrow> rx \<Rightarrow> string \<Rightarrow> captures \<Rightarrow> rx_result list"
  and rx_seq :: "bool \<Rightarrow> rx list \<Rightarrow> string \<Rightarrow> captures \<Rightarrow> rx_result list"
  and rx_alt :: "bool \<Rightarrow> rx list \<Rightarrow> string \<Rightarrow> captures \<Rightarrow> rx_result list"
where
  "rx_match ic (Lit a) s caps =
     (case s of [] \<Rightarrow> [] | c # cs \<Rightarrow> if lit_eq ic a c then [([c], cs, caps)] else [])"
| "rx_match ic (Cls k) s caps =
     (case s of [] \<Rightarrow> [] | c # cs \<Rightarrow> if in_class k c then [([c], cs, caps)] else [])"
| "rx_match ic (Star k) s caps = map (\<lambda>(m, r). (m, r, caps)) (greedy k s)"
| "rx_match ic (Plus k) s caps =
     map (\<lambda>(m, r). (m, r, caps)) (filter (\<lambda>(m, r). m \<noteq> []) (greedy k s))"
| "rx_match ic (Opt r) s caps = rx_match ic r s caps @ [([], s, caps)]"
| "rx_match ic (Seq rs) s caps = rx_seq ic rs s caps"
| "rx_match ic (Alt rs) s caps = rx_alt ic rs s caps"
| "rx_match ic (Grp name r) s caps =
     map (\<lambda>(m, rest, c). (m, rest, dict_set name m c)) (rx_match ic r s caps)"
| "rx_seq ic [] s caps = [([], s, caps)]"
| "rx_seq ic (r # rs) s caps =
     concat (map (\<lambda>(m, rest, c). prepend m (rx_seq ic rs rest c)) (rx_match ic r s caps))"
| "rx_alt ic [] s caps = []"
| "rx_alt ic (r # rs) s caps = rx_match ic r s caps @ rx_alt ic rs s caps"

text \<open>\<^verbatim>\<open>re.findall\<close>: the non-overlapping matches, scanning from the left. After a match the
  scan resumes where the match ended; where nothing matches it moves one character on.
  None of the program's patterns matches the empty string; an empty match is passed over.\<close>

function findall :: "bool \<Rightarrow> rx \<Rightarrow> string \<Rightarrow> (string \<times> captures) list" where
  "findall ic r s =
     (case s of
        [] \<Rightarrow> []
      | c # cs \<Rightarrow>
          (case rx_match ic r s [] of
             [] \<Rightarrow> findall ic r cs
           | (m, rest, caps) # others \<Rightarrow>
               (if m = [] then findall ic r cs
                else (m, caps) # findall ic r (drop (length m) s))))"
  by pat_completeness auto
termination
  by (relation "measure (\<lambda>(ic, r, s). length s)") auto

declare findall.simps [simp del]

text \<open>The match that \<^verbatim>\<open>re.match\<close> reports, if any.\<close>

definition first_match :: "'a list \<Rightarrow> 'a option" where
  "first_match xs = (case xs of [] \<Rightarrow> None | x # others \<Rightarrow> Some x)"

section \<open>Date parsing: \<^verbatim>\<open>datetime.strptime\<close>\<close>

definition month_abbrs :: "string list" where
  "month_abbrs = [''jan'', ''feb'', ''mar'', ''apr'', ''may'', ''jun'',
                  ''jul'', ''aug'', ''sep'', ''oct'', ''nov'', ''dec'']"

definition month_names :: "string list" where
  "month_names = [''january'', ''february'', ''march'', ''april'', ''may'', ''june'',
                  ''july'', ''august'', ''september'', ''october'', ''november'', ''december'']"

text \<open>\<^verbatim>\<open>sorted(names, key=len, reverse=True)\<close>, a stable sort, as the library orders the
  alternatives of a name directive.\<close>

definition longest_first :: "string list \<Rightarrow> string list" where
  "longest_first names = rev (sort_key length (rev names))"

definition names_rx :: "string list \<Rightarrow> rx" where
  "names_rx names = Alt (map (\<lambda>n. Seq (map Lit n)) (longest_first names))"

text \<open>The regular expression of each directive, from the table of \<^verbatim>\<open>_strptime.TimeRE\<close>
  in the C locale.\<close>

definition directive_rx :: "char \<Rightarrow> rx option" where
  "directive_rx d =
    (if d = CHR ''d'' then Some (Grp ''d'' (Alt
        [Seq [Lit CHR ''3'', Cls (In [CRange CHR ''0'' CHR ''1''])],
         Seq [Cls (In [CRange CHR ''1'' CHR ''2'']), Cls (In [CDigit])],
         Seq [Lit CHR ''0'', Cls (In [CRange CHR ''1'' CHR ''9''])],
         Cls (In [CRange CHR ''1'' CHR ''9'']),
         Seq [Lit CHR '' '', Cls (In [CRange CHR ''1'' CHR ''9''])]]))
     else if d = CHR ''m'' then Some (Grp ''m'' (Alt
        [Seq [Lit CHR ''1'', Cls (In [CRange CHR ''0'' CHR ''2''])],
         Seq [Lit CHR ''0'', Cls (In [CRange CHR ''1'' CHR ''9''])],
         Cls (In [CRange CHR ''1'' CHR ''9''])]))
     else if d = CHR ''Y'' then Some (Grp ''Y'' (Seq
        [Cls (In [CDigit]), Cls (In [CDigit]), Cls (In [CDigit]), Cls (In [CDigit])]))
     else if d = CHR ''H'' then Some (Grp ''H'' (Alt
        [Seq [Lit CHR ''2'', Cls (In [CRange CHR ''0'' CHR ''3''])],
         Seq [Cls (In [CRange CHR ''0'' CHR ''1'']), Cls (In [CDigit])],
         Cls (In [CDigit])]))
     else if d = CHR ''M'' then Some (Grp ''M'' (Alt
        [Seq [Cls (In [CRange CHR ''0'' CHR ''5'']), Cls (In [CDigit])],
         Cls (In [CDigit])]))
     else if d = CHR ''S'' then Some (Grp ''S'' (Alt
        [Seq [Lit CHR ''6'', Cls (In [CRange CHR ''0'' CHR ''1''])],
         Seq [Cls (In [CRange CHR ''0'' CHR ''5'']), Cls (In [CDigit])],
         Cls (In [CDigit])]))
     else if d = CHR ''b'' then Some (Grp ''b'' (names_rx month_abbrs))
     else if d = CHR ''B'' then Some (Grp ''B'' (names_rx month_names))
     else None)"

text \<open>\<^verbatim>\<open>TimeRE.pattern\<close>: a run of white space in the format becomes \<^verbatim>\<open>\s+\<close>, a directive
  its regular expression, any other character itself. A directive outside the table is a
  \<^verbatim>\<open>ValueError\<close>.\<close>

function format_rx :: "string \<Rightarrow> exn + rx list" where
  "format_rx [] = Inr []"
| "format_rx (c # cs) =
     (if c = CHR ''%'' then
        (case cs of
           [] \<Rightarrow> Inl ValueError
         | d # ds \<Rightarrow>
             (case directive_rx d of
                None \<Rightarrow> Inl ValueError
              | Some r \<Rightarrow> (case format_rx ds of Inl e \<Rightarrow> Inl e | Inr rs \<Rightarrow> Inr (r # rs))))
      else if py_isspace c then
        (case format_rx (dropWhile py_isspace cs) of
           Inl e \<Rightarrow> Inl e
         | Inr rs \<Rightarrow> Inr (Plus (In [CSpace]) # rs))
      else
        (case format_rx cs of Inl e \<Rightarrow> Inl e | Inr rs \<Rightarrow> Inr (Lit c # rs)))"
  by pat_completeness auto
termination
  by (relation "measure length") (auto simp: le_imp_less_Suc length_dropWhile_le)

text \<open>The number of a captured group: \<^verbatim>\<open>int(found_dict[...])\<close>, which skips the blank that
  the day directive admits.\<close>

definition group_int :: "captures \<Rightarrow> string \<Rightarrow> int \<Rightarrow> int" where
  "group_int caps name dflt =
     (case map_of caps name of None \<Rightarrow> dflt | Some v \<Rightarrow> digits_value (str_strip v))"

fun index_of :: "string \<Rightarrow> string list \<Rightarrow> int" where
  "index_of x [] = 0"
| "index_of x (y # ys) = (if x = y then 0 else 1 + index_of x ys)"

definition group_month :: "captures \<Rightarrow> int" where
  "group_month caps =
     (case map_of caps ''B'' of
        Some v \<Rightarrow> index_of (str_lower v) month_names + 1
      | None \<Rightarrow>
          (case map_of caps ''b'' of
             Some v \<Rightarrow> index_of (str_lower v) month_abbrs + 1
           | None \<Rightarrow> group_int caps ''m'' 1))"

text \<open>
  \<^verbatim>\<open>datetime.strptime(data, format)\<close>, reduced to the date: the format's expression must
  match a prefix of the data (\<^verbatim>\<open>re.match\<close>, ignoring case) and the match must cover all of
  it; the fields found must form a date and a time that the \<^verbatim>\<open>datetime\<close> constructor
  accepts, where a missing year is 1900 and a missing month or day is 1. Every failure is
  a \<^verbatim>\<open>ValueError\<close>.
\<close>

definition strptime :: "string \<Rightarrow> string \<Rightarrow> exn + pydate" where
  "strptime data fmt =
     (case format_rx fmt of
        Inl e \<Rightarrow> Inl e
      | Inr rs \<Rightarrow>
          (case rx_seq True rs data [] of
             [] \<Rightarrow> Inl ValueError
           | (m, rest, caps) # others \<Rightarrow>
               if rest \<noteq> [] then Inl ValueError
               else
                 (let d = Date (group_int caps ''Y'' 1900) (group_month caps) (group_int caps ''d'' 1)
                  in if valid_date d \<and> group_int caps ''H'' 0 \<le> 23 \<and> group_int caps ''M'' 0 \<le> 59
                        \<and> group_int caps ''S'' 0 \<le> 59
                     then Inr d else Inl ValueError)))"

text \<open>\<^verbatim>\<open>dt.replace(year=year)\<close>.\<close>

definition replace_year :: "pydate \<Rightarrow> int \<Rightarrow> exn + pydate" where
  "replace_year d y =
     (if valid_date (Date y (d_month d) (d_day d))
      then Inr (Date y (d_month d) (d_day d)) else Inl ValueError)"

section \<open>The date normalizers: \<^verbatim>\<open>_parse_date\<close> and \<^verbatim>\<open>_parse_date_with_year\<close>\<close>

definition full_formats :: "string list" where
  "full_formats = [''%Y-%m-%d'', ''%m/%d/%Y'', ''%d/%m/%Y'', ''%Y-%m-%d %H:%M:%S'',
                   ''%m/%d/%Y %H:%M:%S'', ''%d-%m-%Y'', ''%Y/%m/%d'']"

definition yearless_formats :: "string list" where
  "yearless_formats = [''%m/%d'', ''%d/%m'', ''%b %d'', ''%B %d'']"

text \<open>The loop over the formats: the first format that parses returns; a \<^verbatim>\<open>ValueError\<close>
  moves on to the next format; any other exception leaves the loop.\<close>

fun try_formats :: "string \<Rightarrow> string list \<Rightarrow> exn + string option" where
  "try_formats s [] = Inr None"
| "try_formats s (f # fs) =
     (case strptime s f of
        Inr d \<Rightarrow> Inr (Some (strftime_ymd d))
      | Inl ValueError \<Rightarrow> try_formats s fs
      | Inl e \<Rightarrow> Inl e)"

text \<open>\<open>today\<close> is the date of \<^verbatim>\<open>datetime.now()\<close>.\<close>

definition parse_date :: "pydate \<Rightarrow> string \<Rightarrow> string" where
  "parse_date today date_str =
     (if date_str = [] \<or> str_strip date_str = [] then strftime_ymd today
      else
        (case try_formats (str_strip date_str) full_formats of
           Inr (Some r) \<Rightarrow> r
         | Inr None \<Rightarrow> strftime_ymd today
         | Inl e \<Rightarrow> strftime_ymd today))"

fun try_formats_with_year :: "string \<Rightarrow> int \<Rightarrow> string list \<Rightarrow> exn + string option" where
  "try_formats_with_year s year [] = Inr None"
| "try_formats_with_year s year (f # fs) =
     (case strptime s f of
        Inr d \<Rightarrow>
          (case replace_year d year of
             Inr d' \<Rightarrow> Inr (Some (strftime_ymd d'))
           | Inl ValueError \<Rightarrow> try_formats_with_year s year fs
           | Inl e \<Rightarrow> Inl e)
      | Inl ValueError \<Rightarrow> try_formats_with_year s year fs
      | Inl e \<Rightarrow> Inl e)"

text \<open>\<^verbatim>\<open>str(n)\<close> for an integer, as the f-string of the fallback formats the year.\<close>

function digits_str :: "int \<Rightarrow> string" where
  "digits_str n =
     (if n < 10 then [digit_char (nat n)]
      else digits_str (n div 10) @ [digit_char (nat (n mod 10))])"
  by pat_completeness auto
termination
  by (relation "measure nat") auto

declare digits_str.simps [simp del]

definition int_str :: "int \<Rightarrow> string" where
  "int_str i = (if i < 0 then ''-'' @ digits_str (- i) else digits_str i)"

definition parse_date_with_year :: "pydate \<Rightarrow> string \<Rightarrow> int \<Rightarrow> string" where
  "parse_date_with_year today date_str year =
     (case try_formats_with_year date_str year yearless_formats of
        Inr (Some r) \<Rightarrow> r
      | Inr None \<Rightarrow> parse_date today date_str
      | Inl e \<Rightarrow> int_str year @ ''-01-01'')"

text \<open>Whether a format parses a string, and the two failure conditions of the
  normalizers: no full-date format parses the trimmed string, no year-less format parses
  the string.\<close>

definition parses :: "string \<Rightarrow> string \<Rightarrow> bool" where
  "parses s f = (case strptime s f of Inr d \<Rightarrow> True | Inl e \<Rightarrow> False)"

definition no_full_format :: "string \<Rightarrow> bool" where
  "no_full_format s = list_all (\<lambda>f. \<not> parses (str_strip s) f) full_formats"

definition no_yearless_format :: "string \<Rightarrow> bool" where
  "no_yearless_format s = list_all (\<lambda>f. \<not> parses s f) yearless_formats"

text \<open>A well-formed \<^verbatim>\<open>YYYY-MM-DD\<close> string: four digits, a hyphen, two digits, a hyphen, two
  digits, which name a date of the calendar.\<close>

definition iso_date_shape :: "string \<Rightarrow> bool" where
  "iso_date_shape s = (length s = 10 \<and> list_all is_decimal (take 4 s) \<and> s ! 4 = CHR ''-''
     \<and> list_all is_decimal (take 2 (drop 5 s)) \<and> s ! 7 = CHR ''-''
     \<and> list_all is_decimal (drop 8 s))"

definition well_formed_date :: "string \<Rightarrow> bool" where
  "well_formed_date s = (iso_date_shape s
     \<and> valid_date (Date (digits_value (take 4 s)) (digits_value (take 2 (drop 5 s)))
          (digits_value (drop 8 s))))"

section \<open>Numbers: \<^verbatim>\<open>float(...)\<close>\<close>

text \<open>
  \<^verbatim>\<open>float(s)\<close> on a string: white space around the literal is dropped (the white space
  that \<^verbatim>\<open>float\<close> knows), then an optional sign, then \<^verbatim>\<open>inf\<close>, \<^verbatim>\<open>infinity\<close> or \<^verbatim>\<open>nan\<close> in
  any case, or a decimal number: digits with single underscores between them, an optional
  fraction, an optional exponent. Anything else is a \<^verbatim>\<open>ValueError\<close>.
\<close>

definition float_isspace :: "char \<Rightarrow> bool" where
  "float_isspace c = (let n = (of_char c :: int) in (9 \<le> n \<and> n \<le> 13) \<or> n = 32 \<or> n = 133 \<or> n = 160)"

text \<open>A digit part: one or more digits, single underscores allowed between digits. The
  result is the digits read and the rest of the input.\<close>

fun digit_part_more :: "string \<Rightarrow> string \<Rightarrow> string \<times> string" where
  "digit_part_more acc (c # d # cs) =
     (if is_decimal c then digit_part_more (acc @ [c]) (d # cs)
      else if c = CHR ''_'' \<and> is_decimal d then digit_part_more (acc @ [d]) cs
      else (acc, c # d # cs))"
| "digit_part_more acc [c] = (if is_decimal c then (acc @ [c], []) else (acc, [c]))"
| "digit_part_more acc [] = (acc, [])"

definition digit_part :: "string \<Rightarrow> (string \<times> string) option" where
  "digit_part s =
     (case s of
        [] \<Rightarrow> None
      | c # cs \<Rightarrow> if is_decimal c then Some (digit_part_more [c] cs) else None)"

text \<open>The mantissa: \<^verbatim>\<open>[digitpart] "." digitpart | digitpart ["."]\<close>, as (integer digits,
  fraction digits, rest).\<close>

definition float_number :: "string \<Rightarrow> (string \<times> string \<times> string) option" where
  "float_number s =
     (case digit_part s of
        Some (ip, rest) \<Rightarrow>
          (case rest of
             c # cs \<Rightarrow>
               if c = CHR ''.'' then
                 (case digit_part cs of
                    Some (fp, rest') \<Rightarrow> Some (ip, fp, rest')
                  | None \<Rightarrow> Some (ip, [], cs))
               else Some (ip, [], rest)
           | [] \<Rightarrow> Some (ip, [], []))
      | None \<Rightarrow>
          (case s of
             c # cs \<Rightarrow>
               if c = CHR ''.'' then
                 (case digit_part cs of
                    Some (fp, rest') \<Rightarrow> Some ([], fp, rest')
                  | None \<Rightarrow> None)
               else None
           | [] \<Rightarrow> None))"

text \<open>The exponent: \<^verbatim>\<open>("e" | "E") [sign] digitpart\<close>; the whole rest of the input must be
  one, or be empty.\<close>

definition float_exponent :: "string \<Rightarrow> int option" where
  "float_exponent s =
     (case s of
        [] \<Rightarrow> Some 0
      | c # cs \<Rightarrow>
          if c = CHR ''e'' \<or> c = CHR ''E'' then
            (let (neg, ds) = (case cs of
                                x # xs \<Rightarrow> if x = CHR ''-'' then (True, xs)
                                          else if x = CHR ''+'' then (False, xs) else (False, cs)
                              | [] \<Rightarrow> (False, cs))
             in case digit_part ds of
                  Some (ep, []) \<Rightarrow> Some (if neg then - digits_value ep else digits_value ep)
                | _ \<Rightarrow> None)
          else None)"

definition decimal_value :: "string \<Rightarrow> string \<Rightarrow> int \<Rightarrow> rat" where
  "decimal_value ip fp e =
     (let m = of_int (digits_value (ip @ fp)) :: rat; x = e - int (length fp)
      in if 0 \<le> x then m * 10 ^ nat x else m / 10 ^ nat (- x))"

definition py_float :: "string \<Rightarrow> exn + pyfloat" where
  "py_float s =
     (let t = rev (dropWhile float_isspace (rev (dropWhile float_isspace s)));
          (neg, body) = (case t of
                           c # cs \<Rightarrow> if c = CHR ''-'' then (True, cs)
                                     else if c = CHR ''+'' then (False, cs) else (False, t)
                         | [] \<Rightarrow> (False, t))
      in if str_lower body = ''inf'' \<or> str_lower body = ''infinity''
         then Inr (if neg then NegInf else PosInf)
         else if str_lower body = ''nan'' then Inr NaN
         else
           (case float_number body of
              None \<Rightarrow> Inl ValueError
            | Some (ip, fp, rest) \<Rightarrow>
                (case float_exponent rest of
                   None \<Rightarrow> Inl ValueError
                 | Some e \<Rightarrow>
                     Inr (Fin (if neg then - decimal_value ip fp e else decimal_value ip fp e)))))"

section \<open>CSV reading: \<^verbatim>\<open>csv.DictReader(io.StringIO(...))\<close>\<close>

text \<open>\<^verbatim>\<open>io.StringIO\<close> hands the reader one line at a time; a line ends after each line
  feed.\<close>

fun string_lines :: "string \<Rightarrow> string \<Rightarrow> string list" where
  "string_lines cur [] = (if cur = [] then [] else [cur])"
| "string_lines cur (c # cs) =
     (if c = CHR 0x0A then (cur @ [c]) # string_lines [] cs else string_lines (cur @ [c]) cs)"

text \<open>
  The state machine of \<^verbatim>\<open>csv.reader\<close> for the default dialect (comma, double quote,
  doubled quotes inside quoted fields, not strict). \<open>None\<close> is the end-of-line signal that
  the reader feeds after the last character of each line. A field may not grow beyond
  131072 characters.
\<close>

datatype csv_state = START_RECORD | START_FIELD | IN_FIELD | IN_QUOTED_FIELD
  | QUOTE_IN_QUOTED_FIELD | EAT_CRNL

datatype reader = Reader (r_state: csv_state) (r_fields: "string list") (r_field: string)

definition is_newline :: "char \<Rightarrow> bool" where
  "is_newline c = (c = CHR 0x0A \<or> c = CHR 0x0D)"

definition save_field :: "csv_state \<Rightarrow> reader \<Rightarrow> exn + reader" where
  "save_field st r = Inr (Reader st (r_fields r @ [r_field r]) [])"

definition add_char :: "csv_state \<Rightarrow> char \<Rightarrow> reader \<Rightarrow> exn + reader" where
  "add_char st c r =
     (if int (length (r_field r)) \<ge> 131072 then Inl CsvError
      else Inr (Reader st (r_fields r) (r_field r @ [c])))"

definition start_field :: "char option \<Rightarrow> reader \<Rightarrow> exn + reader" where
  "start_field c r =
     (case c of
        None \<Rightarrow> save_field START_RECORD r
      | Some x \<Rightarrow>
          if is_newline x then save_field EAT_CRNL r
          else if x = CHR ''\"'' then Inr (Reader IN_QUOTED_FIELD (r_fields r) (r_field r))
          else if x = CHR '','' then save_field START_FIELD r
          else add_char IN_FIELD x r)"

fun process_char :: "char option \<Rightarrow> reader \<Rightarrow> exn + reader" where
  "process_char c (Reader START_RECORD fs f) =
     (case c of
        None \<Rightarrow> Inr (Reader START_RECORD fs f)
      | Some x \<Rightarrow>
          if is_newline x then Inr (Reader EAT_CRNL fs f)
          else start_field c (Reader START_FIELD fs f))"
| "process_char c (Reader START_FIELD fs f) = start_field c (Reader START_FIELD fs f)"
| "process_char c (Reader IN_FIELD fs f) =
     (case c of
        None \<Rightarrow> save_field START_RECORD (Reader IN_FIELD fs f)
      | Some x \<Rightarrow>
          if is_newline x then save_field EAT_CRNL (Reader IN_FIELD fs f)
          else if x = CHR '','' then save_field START_FIELD (Reader IN_FIELD fs f)
          else add_char IN_FIELD x (Reader IN_FIELD fs f))"
| "process_char c (Reader IN_QUOTED_FIELD fs f) =
     (case c of
        None \<Rightarrow> Inr (Reader IN_QUOTED_FIELD fs f)
      | Some x \<Rightarrow>
          if x = CHR ''\"'' then Inr (Reader QUOTE_IN_QUOTED_FIELD fs f)
          else add_char IN_QUOTED_FIELD x (Reader IN_QUOTED_FIELD fs f))"
| "process_char c (Reader QUOTE_IN_QUOTED_FIELD fs f) =
     (case c of
        None \<Rightarrow> save_field START_RECORD (Reader QUOTE_IN_QUOTED_FIELD fs f)
      | Some x \<Rightarrow>
          if x = CHR ''\"'' then add_char IN_QUOTED_FIELD x (Reader QUOTE_IN_QUOTED_FIELD fs f)
          else if x = CHR '','' then save_field START_FIELD (Reader QUOTE_IN_QUOTED_FIELD fs f)
          else if is_newline x then save_field EAT_CRNL (Reader QUOTE_IN_QUOTED_FIELD fs f)
          else add_char IN_FIELD x (Reader QUOTE_IN_QUOTED_FIELD fs f))"
| "process_char c (Reader EAT_CRNL fs f) =
     (case c of
        None \<Rightarrow> Inr (Reader START_RECORD fs f)
      | Some x \<Rightarrow> if is_newline x then Inr (Reader EAT_CRNL fs f) else Inl CsvError)"

fun process_line :: "string \<Rightarrow> reader \<Rightarrow> exn + reader" where
  "process_line [] r = process_char None r"
| "process_line (c # cs) r =
     (case process_char (Some c) r of Inl e \<Rightarrow> Inl e | Inr r' \<Rightarrow> process_line cs r')"

text \<open>One call of the reader's \<^verbatim>\<open>__next__\<close>: lines are consumed until the state is back at
  the start of a record. When the input ends inside a record, the record read so far is
  returned if a field is open. The result is the row and the lines left.\<close>

fun next_row :: "string list \<Rightarrow> reader \<Rightarrow> exn + (string list \<times> string list) option" where
  "next_row [] r =
     (if r_field r \<noteq> [] \<or> r_state r = IN_QUOTED_FIELD
      then Inr (Some (r_fields r @ [r_field r], [])) else Inr None)"
| "next_row (l # ls) r =
     (case process_line l r of
        Inl e \<Rightarrow> Inl e
      | Inr r' \<Rightarrow>
          if r_state r' = START_RECORD then Inr (Some (r_fields r', ls)) else next_row ls r')"

function csv_rows :: "string list \<Rightarrow> exn + string list list" where
  "csv_rows ls =
     (case next_row ls (Reader START_RECORD [] []) of
        Inl e \<Rightarrow> Inl e
      | Inr None \<Rightarrow> Inr []
      | Inr (Some (row, rest)) \<Rightarrow>
          if length rest < length ls then
            (case csv_rows rest of Inl e \<Rightarrow> Inl e | Inr rows \<Rightarrow> Inr (row # rows))
          else Inr [row])"
  by pat_completeness auto
termination
  by (relation "measure length") auto

declare csv_rows.simps [simp del]

text \<open>A value of a row dictionary: a string of the row, \<^verbatim>\<open>None\<close> for a column that the
  row lacks, or the list of surplus fields stored under the key \<^verbatim>\<open>None\<close>.\<close>

datatype cell = Str string | NoneVal | Rest "string list"

type_synonym row = "(string option \<times> cell) list"

text \<open>\<^verbatim>\<open>DictReader.__next__\<close> for one non-empty row.\<close>

definition dict_row :: "string list \<Rightarrow> string list \<Rightarrow> row" where
  "dict_row fieldnames r =
     (let d = dict_of (zip (map Some fieldnames) (map Str r)) in
      if length fieldnames < length r then dict_set None (Rest (drop (length fieldnames) r)) d
      else foldl (\<lambda>d k. dict_set (Some k) NoneVal d) d (drop (length r) fieldnames))"

text \<open>The rows of a \<^verbatim>\<open>DictReader\<close>: the first row read gives the field names, empty rows
  after it are dropped.\<close>

definition dict_reader :: "string \<Rightarrow> exn + row list" where
  "dict_reader content =
     (case csv_rows (string_lines [] content) of
        Inl e \<Rightarrow> Inl e
      | Inr [] \<Rightarrow> Inr []
      | Inr (fieldnames # rows) \<Rightarrow> Inr (map (dict_row fieldnames) (filter (\<lambda>r. r \<noteq> []) rows)))"

section \<open>The two parsers: \<^verbatim>\<open>parse_csv_source1\<close> and \<^verbatim>\<open>parse_csv_source2\<close>\<close>

text \<open>\<^verbatim>\<open>row.get(key, '').strip()\<close>: only a string has \<^verbatim>\<open>strip\<close>.\<close>

definition get_stripped :: "row \<Rightarrow> string option \<Rightarrow> exn + string" where
  "get_stripped r key =
     (case map_of r key of
        None \<Rightarrow> Inr []
      | Some (Str s) \<Rightarrow> Inr (str_strip s)
      | Some v \<Rightarrow> Inl AttributeError)"

text \<open>\<^verbatim>\<open>float(row.get(key, 0))\<close>.\<close>

definition get_float :: "row \<Rightarrow> string option \<Rightarrow> exn + pyfloat" where
  "get_float r key =
     (case map_of r key of
        None \<Rightarrow> Inr (Fin 0)
      | Some (Str s) \<Rightarrow> py_float s
      | Some v \<Rightarrow> Inl TypeError)"

text \<open>The body of the loop of \<^verbatim>\<open>parse_csv_source1\<close> for one row: \<open>Inr None\<close> is
  \<^verbatim>\<open>continue\<close>, \<open>Inl\<close> an exception raised inside the \<^verbatim>\<open>try\<close>.\<close>

definition source1_row :: "config \<Rightarrow> pydate \<Rightarrow> row \<Rightarrow> exn + entry option" where
  "source1_row cfg today r =
     (case get_stripped r (csv1_id_field cfg) of
        Inl e \<Rightarrow> Inl e
      | Inr oid \<Rightarrow>
          (case get_stripped r (csv1_date_field cfg) of
             Inl e \<Rightarrow> Inl e
           | Inr date_str \<Rightarrow>
               if oid = [] \<or> date_str = [] then Inr None
               else if \<not> numeric_token oid then Inr None
               else
                 (case get_float r (csv1_amount_field cfg) of
                    Inl e \<Rightarrow> Inl e
                  | Inr amount \<Rightarrow>
                      Inr (Some \<lparr> source = csv1_source_name cfg, order_amount = amount,
                                  order_id = oid, order_date = parse_date today date_str \<rparr>))))"

text \<open>The loop with its \<^verbatim>\<open>try\<close>: a row that raises is passed over like one that is
  skipped.\<close>

definition keep_rows :: "(row \<Rightarrow> exn + entry option) \<Rightarrow> row list \<Rightarrow> entry list" where
  "keep_rows f rows = List.map_filter (\<lambda>r. case f r of Inl e \<Rightarrow> None | Inr x \<Rightarrow> x) rows"

text \<open>An error of the CSV reader itself is raised outside the \<^verbatim>\<open>try\<close> and leaves the
  function.\<close>

definition parse_csv_source1 :: "config \<Rightarrow> pydate \<Rightarrow> string \<Rightarrow> exn + entry list" where
  "parse_csv_source1 cfg today content =
     (case dict_reader content of
        Inl e \<Rightarrow> Inl e
      | Inr rows \<Rightarrow> Inr (keep_rows (source1_row cfg today) rows))"

text \<open>\<^verbatim>\<open>s.split('\n')\<close> and \<^verbatim>\<open>'\n'.join(lines)\<close>.\<close>

fun split_lines :: "string \<Rightarrow> string \<Rightarrow> string list" where
  "split_lines cur [] = [cur]"
| "split_lines cur (c # cs) =
     (if c = CHR 0x0A then cur # split_lines [] cs else split_lines (cur @ [c]) cs)"

fun join_lines :: "string list \<Rightarrow> string" where
  "join_lines [] = []"
| "join_lines [l] = l"
| "join_lines (l # m # ls) = l @ [CHR 0x0A] @ join_lines (m # ls)"

text \<open>\<^verbatim>\<open>list(row.values())[0].strip().lower() if row.values() else ''\<close>.\<close>

definition first_value :: "row \<Rightarrow> exn + string" where
  "first_value r =
     (case r of
        [] \<Rightarrow> Inr []
      | (k, Str s) # kvs \<Rightarrow> Inr (str_lower (str_strip s))
      | (k, v) # kvs \<Rightarrow> Inl AttributeError)"

definition source2_row :: "config \<Rightarrow> pydate \<Rightarrow> row \<Rightarrow> exn + entry option" where
  "source2_row cfg today r =
     (case get_stripped r (csv2_date_field cfg) of
        Inl e \<Rightarrow> Inl e
      | Inr date_str \<Rightarrow>
          (case get_stripped r (csv2_id_field cfg) of
             Inl e \<Rightarrow> Inl e
           | Inr oid \<Rightarrow>
               if oid = [] \<or> date_str = [] then Inr None
               else if \<not> numeric_token oid then Inr None
               else
                 (case first_value r of
                    Inl e \<Rightarrow> Inl e
                  | Inr first_col \<Rightarrow>
                      if first_col \<in> set [''total'', ''summary'', ''subtotal'', ''grand total'']
                      then Inr None
                      else
                        (let order_date = parse_date_with_year today date_str (d_year today) in
                         if order_date = [] \<or> str_strip order_date = [] then Inr None
                         else
                           (case get_float r (csv2_amount_field cfg) of
                              Inl e \<Rightarrow> Inl e
                            | Inr amount \<Rightarrow>
                                Inr (Some \<lparr> source = csv2_source_name cfg, order_amount = amount,
                                            order_id = oid, order_date = order_date \<rparr>))))))"

definition skip_banner :: "int \<Rightarrow> string list \<Rightarrow> string list" where
  "skip_banner n ls = (if n > 0 \<and> int (length ls) > n then drop (nat n) ls else ls)"

definition parse_csv_source2 :: "config \<Rightarrow> pydate \<Rightarrow> string \<Rightarrow> exn + entry list" where
  "parse_csv_source2 cfg today content =
     (case dict_reader (join_lines (skip_banner (csv2_skip_rows cfg) (split_lines [] (str_strip content)))) of
        Inl e \<Rightarrow> Inl e
      | Inr rows \<Rightarrow> Inr (keep_rows (source2_row cfg today) rows))"

section \<open>Messages\<close>

text \<open>
  A message as the mail API returns it: a tree of parts. Every key that the program reads
  with a default may be absent. The services that the program calls and does not define
  (the attachment download of the mail API, base64 and UTF-8 decoding) are parameters;
  bytes are strings of byte values.
\<close>

record mbody =
  b_attachment_id :: "string option"
  b_data :: "string option"

datatype part = Part (p_mime_type: "string option") (p_filename: "string option")
  (p_body: "mbody option") (p_parts: "part list option")

type_synonym message = "part option"

record services =
  get_attachment :: "string \<Rightarrow> string \<Rightarrow> exn + string option"
  urlsafe_b64decode :: "string \<Rightarrow> exn + string"
  utf8_decode :: "string \<Rightarrow> exn + string"
  utf8_decode_ignore :: "string \<Rightarrow> string"

text \<open>\<^verbatim>\<open>message.get('payload', {}).get('parts', [])\<close>.\<close>

definition top_parts :: "message \<Rightarrow> part list" where
  "top_parts msg = (case msg of None \<Rightarrow> [] | Some pl \<Rightarrow> (case p_parts pl of None \<Rightarrow> [] | Some ps \<Rightarrow> ps))"

fun starts_with :: "string \<Rightarrow> string \<Rightarrow> bool" where
  "starts_with s [] = True"
| "starts_with [] (p # ps) = False"
| "starts_with (c # cs) (p # ps) = (c = p \<and> starts_with cs ps)"

definition str_endswith :: "string \<Rightarrow> string \<Rightarrow> bool" where
  "str_endswith s suf = starts_with (rev s) (rev suf)"

text \<open>\<^verbatim>\<open>needle in s\<close>.\<close>

fun str_contains :: "string \<Rightarrow> string \<Rightarrow> bool" where
  "str_contains needle [] = (needle = [])"
| "str_contains needle (c # cs) = (starts_with (c # cs) needle \<or> str_contains needle cs)"

subsection \<open>\<^verbatim>\<open>extract_attachment\<close>\<close>

text \<open>The loop over the top-level parts. A part named \<^verbatim>\<open>*.csv\<close> without a body raises
  \<^verbatim>\<open>KeyError\<close>; one without an attachment id is passed over; the first one with an
  attachment id is downloaded and decoded, and any failure there is an exception.\<close>

fun scan_parts :: "services \<Rightarrow> string \<Rightarrow> part list \<Rightarrow> exn + string option" where
  "scan_parts sv msg_id [] = Inr None"
| "scan_parts sv msg_id (p # ps) =
     (if str_endswith (case p_filename p of None \<Rightarrow> [] | Some f \<Rightarrow> f) ''.csv'' then
        (case p_body p of
           None \<Rightarrow> Inl KeyError
         | Some b \<Rightarrow>
             (case b_attachment_id b of
                None \<Rightarrow> scan_parts sv msg_id ps
              | Some aid \<Rightarrow>
                  if aid = [] then scan_parts sv msg_id ps
                  else
                    (case get_attachment sv msg_id aid of
                       Inl e \<Rightarrow> Inl e
                     | Inr None \<Rightarrow> Inl KeyError
                     | Inr (Some d) \<Rightarrow>
                         (case urlsafe_b64decode sv d of
                            Inl e \<Rightarrow> Inl e
                          | Inr bytes \<Rightarrow>
                              (case utf8_decode sv bytes of
                                 Inl e \<Rightarrow> Inl e
                               | Inr txt \<Rightarrow> Inr (Some txt))))))
      else scan_parts sv msg_id ps)"

text \<open>The whole body is inside \<^verbatim>\<open>try\<close>; every exception gives \<^verbatim>\<open>None\<close>.\<close>

definition extract_attachment :: "services \<Rightarrow> string \<Rightarrow> message \<Rightarrow> string option" where
  "extract_attachment sv msg_id msg =
     (case scan_parts sv msg_id (top_parts msg) of Inl e \<Rightarrow> None | Inr r \<Rightarrow> r)"

text \<open>The nodes of a content tree in pre-order, and the nodes that the attachment
  extractor is specified to look for.\<close>

fun tree_nodes :: "part \<Rightarrow> part list" where
  "tree_nodes (Part mt fn b sub) =
     Part mt fn b sub # (case sub of None \<Rightarrow> [] | Some ps \<Rightarrow> concat (map tree_nodes ps))"

definition csv_attachment_node :: "part \<Rightarrow> bool" where
  "csv_attachment_node p =
     (str_endswith (case p_filename p of None \<Rightarrow> [] | Some f \<Rightarrow> f) ''.csv''
      \<and> (case p_body p of None \<Rightarrow> False
          | Some b \<Rightarrow> (case b_attachment_id b of None \<Rightarrow> False | Some aid \<Rightarrow> aid \<noteq> [])))"

subsection \<open>\<^verbatim>\<open>extract_csv_link\<close>\<close>

text \<open>The inner function \<^verbatim>\<open>extract_body\<close>: the decoded HTML and plain-text payloads of a
  part and of its sub-parts are appended, in pre-order, to the two accumulators.\<close>

definition decode_ignore :: "services \<Rightarrow> string \<Rightarrow> exn + string" where
  "decode_ignore sv d =
     (case urlsafe_b64decode sv d of Inl e \<Rightarrow> Inl e | Inr bytes \<Rightarrow> Inr (utf8_decode_ignore sv bytes))"

definition body_data :: "part \<Rightarrow> string" where
  "body_data p = (case p_body p of None \<Rightarrow> [] | Some b \<Rightarrow> (case b_data b of None \<Rightarrow> [] | Some d \<Rightarrow> d))"

fun extract_body :: "services \<Rightarrow> part \<Rightarrow> string \<times> string \<Rightarrow> exn + string \<times> string"
  and extract_bodies :: "services \<Rightarrow> part list \<Rightarrow> string \<times> string \<Rightarrow> exn + string \<times> string"
where
  "extract_body sv (Part mt fn b sub) (html, text) =
     (case (if mt = Some ''text/html'' \<and> body_data (Part mt fn b sub) \<noteq> [] then
              (case decode_ignore sv (body_data (Part mt fn b sub)) of
                 Inl e \<Rightarrow> Inl e | Inr t \<Rightarrow> Inr (html @ t, text))
            else if mt = Some ''text/plain'' \<and> body_data (Part mt fn b sub) \<noteq> [] then
              (case decode_ignore sv (body_data (Part mt fn b sub)) of
                 Inl e \<Rightarrow> Inl e | Inr t \<Rightarrow> Inr (html, text @ t))
            else Inr (html, text)) of
        Inl e \<Rightarrow> Inl e
      | Inr acc \<Rightarrow> (case sub of None \<Rightarrow> Inr acc | Some ps \<Rightarrow> extract_bodies sv ps acc))"
| "extract_bodies sv [] acc = Inr acc"
| "extract_bodies sv (p # ps) acc =
     (case extract_body sv p acc of Inl e \<Rightarrow> Inl e | Inr acc' \<Rightarrow> extract_bodies sv ps acc')"

text \<open>The fallback to the body of the payload itself when the parts gave nothing.\<close>

definition direct_body :: "services \<Rightarrow> message \<Rightarrow> string \<times> string \<Rightarrow> exn + string \<times> string" where
  "direct_body sv msg acc =
     (if fst acc = [] \<and> snd acc = [] then
        (let d = (case msg of None \<Rightarrow> [] | Some pl \<Rightarrow> body_data pl) in
         if d \<noteq> [] then
           (case decode_ignore sv d of
              Inl e \<Rightarrow> Inl e
            | Inr decoded \<Rightarrow>
                if str_contains ''<html'' (str_lower decoded) \<or> str_contains ''<a '' (str_lower decoded)
                then Inr (decoded, []) else Inr ([], decoded))
         else Inr acc)
      else Inr acc)"

text \<open>The five patterns of the link search, transcribed from the source.\<close>

definition lits :: "string \<Rightarrow> rx list" where
  "lits s = map Lit s"

definition href_rx :: rx where
  "href_rx = Seq (lits ''<a'' @ [Plus (NotIn [CChar CHR ''>''])] @ lits ''href=''
     @ [Cls (In [CChar CHR ''\"'', CChar (CHR 0x27)]),
        Grp ''1'' (Plus (NotIn [CChar CHR ''\"'', CChar (CHR 0x27)])),
        Cls (In [CChar CHR ''\"'', CChar (CHR 0x27)]),
        Star (NotIn [CChar CHR ''>'']), Lit CHR ''>''])"

definition html_url_rx :: rx where
  "html_url_rx = Seq (lits ''http'' @ [Opt (Lit CHR ''s'')] @ lits ''://''
     @ [Plus (NotIn [CSpace, CChar CHR ''<'', CChar CHR ''>'', CChar CHR ''\"'', CChar (CHR 0x27)]),
        Alt [Seq (lits ''.csv''),
             Seq (lits ''s3.amazonaws.com''
               @ [Star (NotIn [CSpace, CChar CHR ''<'', CChar CHR ''>'', CChar CHR ''\"'', CChar (CHR 0x27)])])]])"

definition text_csv_rx :: rx where
  "text_csv_rx = Seq (lits ''http'' @ [Opt (Lit CHR ''s'')] @ lits ''://''
     @ [Plus (NotIn [CSpace, CChar CHR ''<'', CChar CHR ''>'', CChar CHR ''\"''])] @ lits ''.csv''
     @ [Star (NotIn [CSpace, CChar CHR ''<'', CChar CHR ''>'', CChar CHR ''\"''])])"

definition text_s3_rx :: rx where
  "text_s3_rx = Seq (lits ''http'' @ [Opt (Lit CHR ''s'')] @ lits ''://''
     @ [Star (NotIn [CSpace, CChar CHR ''<'', CChar CHR ''>'', CChar CHR ''\"''])]
     @ lits ''s3.amazonaws.com''
     @ [Plus (NotIn [CSpace, CChar CHR ''<'', CChar CHR ''>'', CChar CHR ''\"''])])"

definition text_url_rx :: rx where
  "text_url_rx = Seq (lits ''http'' @ [Opt (Lit CHR ''s'')] @ lits ''://''
     @ [Plus (NotIn [CSpace, CChar CHR ''<'', CChar CHR ''>'', CChar CHR ''\"''])])"

text \<open>\<^verbatim>\<open>re.findall\<close> returns the text of the group when the pattern has one group, the
  whole match otherwise.\<close>

definition findall_group :: "bool \<Rightarrow> rx \<Rightarrow> string \<Rightarrow> string list" where
  "findall_group ic r s = map (\<lambda>(m, caps). case map_of caps ''1'' of Some g \<Rightarrow> g | None \<Rightarrow> []) (findall ic r s)"

definition findall_whole :: "bool \<Rightarrow> rx \<Rightarrow> string \<Rightarrow> string list" where
  "findall_whole ic r s = map fst (findall ic r s)"

text \<open>The search in the HTML body: the first anchor target that mentions \<^verbatim>\<open>.csv\<close> or the
  storage domain, else the first URL of the raw HTML that ends in \<^verbatim>\<open>.csv\<close> or mentions the
  storage domain.\<close>

definition html_link :: "string \<Rightarrow> string option" where
  "html_link html =
     (case filter (\<lambda>h. str_contains ''.csv'' (str_lower h) \<or> str_contains ''s3.amazonaws.com'' (str_lower h))
             (findall_group True href_rx html) of
        h # hs \<Rightarrow> Some h
      | [] \<Rightarrow> (case findall_whole True html_url_rx html of u # us \<Rightarrow> Some u | [] \<Rightarrow> None))"

text \<open>The search in the plain text: the first \<^verbatim>\<open>.csv\<close> URL, else the first storage-domain
  URL, else the first URL that mentions \<^verbatim>\<open>csv\<close> or \<^verbatim>\<open>export\<close>.\<close>

definition text_link :: "string \<Rightarrow> string option" where
  "text_link text =
     (case findall_whole True text_csv_rx text of
        u # us \<Rightarrow> Some u
      | [] \<Rightarrow>
          (case findall_whole True text_s3_rx text of
             u # us \<Rightarrow> Some u
           | [] \<Rightarrow>
               (case filter (\<lambda>l. str_contains ''csv'' (str_lower l) \<or> str_contains ''export'' (str_lower l))
                       (findall_whole False text_url_rx text) of
                  l # ls \<Rightarrow> Some l
                | [] \<Rightarrow> None)))"

text \<open>The second half of \<^verbatim>\<open>extract_csv_link\<close>, from the two collected bodies to the link.\<close>

definition find_link :: "string \<Rightarrow> string \<Rightarrow> string option" where
  "find_link html text =
     (case (if html \<noteq> [] then html_link html else None) of
        Some u \<Rightarrow> Some u
      | None \<Rightarrow> (if text \<noteq> [] then text_link text else None))"

definition extract_csv_link :: "services \<Rightarrow> message \<Rightarrow> string option" where
  "extract_csv_link sv msg =
     (case extract_bodies sv (top_parts msg) ([], []) of
        Inl e \<Rightarrow> None
      | Inr acc \<Rightarrow>
          (case direct_body sv msg acc of
             Inl e \<Rightarrow> None
           | Inr (html, text) \<Rightarrow> find_link html text))"

section \<open>Example inputs\<close>




definition entry_first :: entry where
  "entry_first = \<lparr> source = ''Source1'', order_amount = Fin 10, order_id = ''1001'',
     order_date = ''2024-03-01'' \<rparr>"

definition entry_second :: entry where
  "entry_second = \<lparr> source = ''Source1'', order_amount = Fin 20, order_id = ''1001'',
     order_date = ''2024-03-01'' \<rparr>"

text \<open>A store that already holds two pages with the same order id.\<close>

definition store_duplicates :: notion where
  "store_duplicates = \<lparr>
     pages = ((\<lambda>i. None)(0 \<mapsto> [(''Order ID'', Number (PInt 1001))]))
                         (1 \<mapsto> [(''Order ID'', Number (PInt 1001))]),
     next_id = 2, faults = [], requests = [], error_log = [] \<rparr>"

text \<open>The property names under which the query of \<^verbatim>\<open>check_notion_entry_exists\<close> (fixed
  to \<^verbatim>\<open>Order ID\<close>) sees what the write stores, and under which the amount is not
  overwritten by a later key of the same dictionary.\<close>

definition property_names_ok :: "config \<Rightarrow> bool" where
  "property_names_ok cfg = (notion_id_property cfg = ''Order ID''
     \<and> notion_amount_property cfg \<notin> {notion_id_property cfg, notion_date_property cfg,
          notion_checkbox_property cfg}
     \<and> notion_id_property cfg \<notin> {notion_date_property cfg, notion_checkbox_property cfg})"

text \<open>A configuration whose id property is not called \<^verbatim>\<open>Order ID\<close>.\<close>

definition config_custom_id :: config where
  "config_custom_id = default_config\<lparr> notion_id_property := ''Order Number'' \<rparr>"

text \<open>A message whose only CSV attachment sits one level down, inside a multipart part.\<close>

definition csv_part :: part where
  "csv_part = Part (Some ''text/csv'') (Some ''report.csv'')
     (Some \<lparr> b_attachment_id = Some ''att-1'', b_data = None \<rparr>) None"

definition nested_message :: message where
  "nested_message = Some (Part (Some ''multipart/mixed'') (Some []) None
     (Some [Part (Some ''multipart/related'') (Some []) None (Some [csv_part])]))"

text \<open>The same attachment at the top level, and services that deliver it.\<close>

definition flat_message :: message where
  "flat_message = Some (Part (Some ''multipart/mixed'') (Some []) None (Some [csv_part]))"

definition plain_services :: services where
  "plain_services = \<lparr> get_attachment = (\<lambda>msg_id att_id. Inr (Some ''aWQsYW10'')),
     urlsafe_b64decode = (\<lambda>d. Inr ''id,amt''), utf8_decode = (\<lambda>b. Inr b),
     utf8_decode_ignore = (\<lambda>b. b) \<rparr>"

text \<open>Plain texts with a storage-domain URL and a URL that mentions \<^verbatim>\<open>export\<close>.\<close>

definition text_bare_host :: string where
  "text_bare_host = ''https://bucket.s3.amazonaws.com https://example.com/export''"

definition text_with_path :: string where
  "text_with_path = ''see https://example.com/export or https://bucket.s3.amazonaws.com/reports/today''"

text \<open>Field mappings for the two parsers.\<close>

definition config_fields :: config where
  "config_fields = default_config\<lparr>
     csv1_amount_field := Some ''amt'', csv1_id_field := Some ''id'', csv1_date_field := Some ''date'',
     csv2_amount_field := Some ''amt'', csv2_id_field := Some ''id'', csv2_date_field := Some ''date'',
     csv2_skip_rows := 1 \<rparr>"

definition csv_sample :: string where
  "csv_sample = ''id,amt,date'' @ [CHR 0x0A] @ ''1001,25.50,2024-03-01'' @ [CHR 0x0A]
     @ ''Total,,'' @ [CHR 0x0A]"

text \<open>An export with a banner line and a header that names two columns alike.\<close>

definition csv_repeated_header :: string where
  "csv_repeated_header = ''Report'' @ [CHR 0x0A] @ ''label,id,date,label'' @ [CHR 0x0A]
     @ ''Subtotal,1001,3/4,x'' @ [CHR 0x0A]"



definition row_subtotal :: row where
  "row_subtotal = [(Some ''label'', Str '' SubTotal ''), (Some ''id'', Str ''1001''),
     (Some ''date'', Str ''3/4''), (Some ''amt'', Str ''5'')]"


section \<open>Facts about dictionaries and the store\<close>

lemma map_of_dict_set: "map_of (dict_set k v d) = (map_of d)(k \<mapsto> v)"
  by (induction d) (auto simp: fun_eq_iff)

lemma dict_set_keys: "fst ` set (dict_set k v d) = insert k (fst ` set d)"
  by (induction k v d rule: dict_set.induct) (simp_all add: insert_commute)

lemma dict_set_distinct: "distinct (map fst d) \<Longrightarrow> distinct (map fst (dict_set k v d))"
  by (induction k v d rule: dict_set.induct) (auto simp: dict_set_keys)

lemma merge_distinct:
  "distinct (map fst d) \<Longrightarrow> distinct (map fst (foldl (\<lambda>d (k, v). dict_set k v d) d kvs))"
  by (induction kvs arbitrary: d) (auto simp: dict_set_distinct)

lemma dict_of_distinct: "distinct (map fst (dict_of kvs))"
  by (simp add: dict_of_def merge_distinct)

lemma map_of_merge:
  "map_of (foldl (\<lambda>d (k, v). dict_set k v d) d kvs) = map_of d ++ map_of (rev kvs)"
proof (induction kvs arbitrary: d)
  case Nil
  then show ?case by simp
next
  case (Cons kv kvs)
  obtain k v where kv: "kv = (k, v)" by (cases kv)
  show ?case
    by (simp add: kv Cons map_of_dict_set fun_eq_iff map_add_def split: option.splits)
qed

lemma map_of_dict_of: "map_of (dict_of kvs) = map_of (rev kvs)"
  by (simp add: dict_of_def map_of_merge)


lemma page_matches_requests [simp]:
  "page_matches (s\<lparr>requests := r\<rparr>) p k i = page_matches s p k i"
  by (simp add: page_matches_def)

lemma find_by_key_requests [simp]: "find_by_key (s\<lparr>requests := r\<rparr>) p k = find_by_key s p k"
  by (simp add: find_by_key_def cong: filter_cong)


lemma api_call_ok: "faults s = [] \<Longrightarrow> api_call r s = (False, s\<lparr>requests := requests s @ [r]\<rparr>)"
  by (simp add: api_call_def)





lemma log_error_requests [simp]: "requests (log_error m s) = requests s"
  by (simp add: log_error_def)


lemma map_of_rev_distinct: "distinct (map fst xs) \<Longrightarrow> map_of (rev xs) = map_of xs"
proof (induction xs)
  case Nil then show ?case by simp
next
  case (Cons x xs)
  then have "fst x \<notin> dom (map_of xs)" by (auto simp: dom_map_of_conv_image_fst)
  then have "map_of xs (fst x) = None" by auto
  then show ?case using Cons
    by (cases x) (auto simp: fun_eq_iff map_add_def split: option.splits)
qed

lemma map_of_merge_distinct:
  "distinct (map fst P) \<Longrightarrow>
   map_of (foldl (\<lambda>d (k, v). dict_set k v d) old P) = map_of old ++ map_of P"
  by (simp add: map_of_merge map_of_rev_distinct)

lemma entry_properties_distinct: "distinct (map fst (entry_properties cfg today e k))"
  by (simp add: entry_properties_def dict_of_distinct)

lemma query_ok:
  "faults s = [] \<Longrightarrow> notion_databases_query p k s
     = (Inr (find_by_key s p k), s\<lparr>requests := requests s @ [Query p k]\<rparr>)"
  by (simp add: notion_databases_query_def api_call_ok)

lemma check_ok:
  "faults s = [] \<Longrightarrow> id_number oid = Inr k \<Longrightarrow>
   check_notion_entry_exists oid s
     = (case find_by_key s ''Order ID'' k of [] \<Rightarrow> None | r # rs \<Rightarrow> Some r,
        s\<lparr>requests := requests s @ [Query ''Order ID'' k]\<rparr>)"
  by (simp add: check_notion_entry_exists_def query_ok split: list.splits)

lemma find_by_key_mem:
  "i \<in> set (find_by_key s p k) \<longleftrightarrow> i < next_id s \<and> page_matches s p k i"
  by (auto simp: find_by_key_def)

lemma create_find:
  assumes "faults s = []" and "map_of P p = Some (Number (PInt k))"
  shows "faults (snd (notion_pages_create P s)) = []"
    and "find_by_key (snd (notion_pages_create P s)) p k = find_by_key s p k @ [next_id s]"
    and "pages (snd (notion_pages_create P s)) (next_id s) = Some P"
    and "fst (notion_pages_create P s) = Inr (next_id s)"
proof -
  let ?s' = "snd (notion_pages_create P s)"
  have s': "?s' = s\<lparr>requests := requests s @ [Create P], pages := (pages s)(next_id s \<mapsto> P),
                    next_id := Suc (next_id s)\<rparr>"
    using assms(1) by (simp add: notion_pages_create_def api_call_ok)
  show "fst (notion_pages_create P s) = Inr (next_id s)"
    using assms(1) by (simp add: notion_pages_create_def api_call_ok)
  show "faults ?s' = []" using assms(1) by (simp add: s')
  show "pages ?s' (next_id s) = Some P" by (simp add: s')
  have old: "page_matches ?s' p k i = page_matches s p k i" if "i < next_id s" for i
    using that by (simp add: s' page_matches_def)
  have new: "page_matches ?s' p k (next_id s)"
    using assms(2) by (simp add: s' page_matches_def num_equals_def)
  have "find_by_key ?s' p k = filter (page_matches ?s' p k) [0 ..< Suc (next_id s)]"
    by (simp add: find_by_key_def s')
  also have "\<dots> = filter (page_matches ?s' p k) [0 ..< next_id s] @ [next_id s]"
    using new by simp
  also have "filter (page_matches ?s' p k) [0 ..< next_id s] = filter (page_matches s p k) [0 ..< next_id s]"
    using old by (auto intro: filter_cong)
  finally show "find_by_key ?s' p k = find_by_key s p k @ [next_id s]"
    by (simp add: find_by_key_def)
qed

lemma update_find:
  assumes "faults s = []" and "map_of P p = Some (Number (PInt k))"
    and "distinct (map fst P)" and "pid \<in> set (find_by_key s p k)"
  shows "faults (snd (notion_pages_update pid P s)) = []"
    and "find_by_key (snd (notion_pages_update pid P s)) p k = find_by_key s p k"
    and "\<exists>ps. pages (snd (notion_pages_update pid P s)) pid = Some ps
            \<and> (\<forall>q v. map_of P q = Some v \<longrightarrow> map_of ps q = Some v)"
    and "\<exists>u. fst (notion_pages_update pid P s) = Inr u"
proof -
  let ?s' = "snd (notion_pages_update pid P s)"
  from assms(4) have lt: "pid < next_id s" and m: "page_matches s p k pid"
    by (simp_all add: find_by_key_mem)
  from m obtain old where old: "pages s pid = Some old"
    by (auto simp: page_matches_def split: option.splits)
  let ?new = "foldl (\<lambda>d (k, v). dict_set k v d) old P"
  have s': "?s' = s\<lparr>requests := requests s @ [Update pid P], pages := (pages s)(pid \<mapsto> ?new)\<rparr>"
    using assms(1) lt old by (simp add: notion_pages_update_def api_call_ok)
  show "\<exists>u. fst (notion_pages_update pid P s) = Inr u"
    using assms(1) lt old by (simp add: notion_pages_update_def api_call_ok)
  show "faults ?s' = []" using assms(1) by (simp add: s')
  have newm: "map_of P q = Some v \<Longrightarrow> map_of ?new q = Some v" for q v
    by (simp add: map_of_merge_distinct [OF assms(3)] map_add_def)
  show "\<exists>ps. pages ?s' pid = Some ps \<and> (\<forall>q v. map_of P q = Some v \<longrightarrow> map_of ps q = Some v)"
    using newm by (simp add: s')
  have same: "page_matches ?s' p k i = page_matches s p k i" for i
  proof (cases "i = pid")
    case True
    then show ?thesis using m newm [OF assms(2)] by (simp add: s' page_matches_def num_equals_def)
  next
    case False
    then show ?thesis by (simp add: s' page_matches_def)
  qed
  show "find_by_key ?s' p k = find_by_key s p k"
    using same by (simp add: find_by_key_def s' cong: filter_cong)
qed

lemma entry_properties_lookup:
  assumes "property_names_ok cfg"
  shows "map_of (entry_properties cfg today e k) ''Order ID'' = Some (Number (PInt k))"
    and "map_of (entry_properties cfg today e k) (notion_amount_property cfg)
          = Some (Number (PFloat (order_amount e)))"
  using assms by (auto simp: property_names_ok_def entry_properties_def map_of_dict_of)

lemma upsert_effect:
  assumes nf: "faults s = []" and ok: "property_names_ok cfg"
    and nb: "str_strip (order_id e) \<noteq> []" and idn: "id_number (order_id e) = Inr k"
  shows "faults (create_or_update_notion_entry cfg today e s) = []
     \<and> find_by_key (create_or_update_notion_entry cfg today e s) ''Order ID'' k
         = (case find_by_key s ''Order ID'' k of [] \<Rightarrow> [next_id s] | r # rs \<Rightarrow> r # rs)
     \<and> (\<exists>ps. pages (create_or_update_notion_entry cfg today e s)
                (hd (find_by_key (create_or_update_notion_entry cfg today e s) ''Order ID'' k)) = Some ps
           \<and> map_of ps (notion_amount_property cfg) = Some (Number (PFloat (order_amount e))))"
proof -
  have ne: "order_id e \<noteq> []" using nb by (auto simp: str_strip_def)
  let ?P = "entry_properties cfg today e k"
  let ?s1 = "s\<lparr>requests := requests s @ [Query ''Order ID'' k]\<rparr>"
  have f1: "faults ?s1 = []" using nf by simp
  note lk = entry_properties_lookup [OF ok, of today e k]
  show ?thesis
  proof (cases "find_by_key s ''Order ID'' k")
    case Nil
    have up: "create_or_update_notion_entry cfg today e s = snd (notion_pages_create ?P ?s1)"
      using ne nb idn Nil create_find(4) [OF f1 lk(1)]
      by (auto simp: create_or_update_notion_entry_def check_ok [OF nf idn] split: prod.splits sum.splits)
    show ?thesis
      using create_find(1-3) [OF f1 lk(1)] Nil lk(2) by (simp add: up)
  next
    case (Cons r rs)
    have mem: "r \<in> set (find_by_key ?s1 ''Order ID'' k)" using Cons by simp
    note uf = update_find [OF f1 lk(1) entry_properties_distinct mem]
    have up: "create_or_update_notion_entry cfg today e s = snd (notion_pages_update r ?P ?s1)"
      using ne nb idn Cons uf(4)
      by (auto simp: create_or_update_notion_entry_def check_ok [OF nf idn] split: prod.splits sum.splits)
    show ?thesis
      using uf(1-3) Cons lk(2) by (auto simp: up)
  qed
qed


lemma digit_not_space: "py_isdigit c \<Longrightarrow> \<not> py_isspace c"
  by (auto simp: py_isdigit_def py_isspace_def Let_def)

lemma dot_not_space: "\<not> py_isspace CHR ''.''"
  by (simp add: py_isspace_def)

lemma remove_first_dot_all:
  "list_all py_isdigit (remove_first_dot s) \<Longrightarrow> list_all (\<lambda>c. \<not> py_isspace c) s"
  by (induction s) (auto simp: digit_not_space dot_not_space list_all_iff split: if_splits)

lemma strip_no_space: "list_all (\<lambda>c. \<not> py_isspace c) s \<Longrightarrow> str_strip s = s"
proof -
  assume a: "list_all (\<lambda>c. \<not> py_isspace c) s"
  have d: "dropWhile py_isspace xs = xs" if "list_all (\<lambda>c. \<not> py_isspace c) xs" for xs
    using that by (cases xs) auto
  have "list_all (\<lambda>c. \<not> py_isspace c) (rev s)" using a by (simp add: list_all_iff)
  then show ?thesis using a by (simp add: str_strip_def d)
qed

lemma numeric_token_nonblank: "numeric_token s \<Longrightarrow> str_strip s \<noteq> []"
proof -
  assume n: "numeric_token s"
  then have "s \<noteq> []" by (auto simp: numeric_token_def str_isdigit_def)
  moreover have "str_strip s = s"
    using n by (intro strip_no_space remove_first_dot_all) (simp add: numeric_token_def str_isdigit_def)
  ultimately show ?thesis by simp
qed

section \<open>Facts about digits, matching and date parsing\<close>

lemma digit_char_cases:
  "k < 10 \<Longrightarrow> k = 0 \<or> k = 1 \<or> k = 2 \<or> k = 3 \<or> k = 4 \<or> k = 5 \<or> k = 6 \<or> k = 7 \<or> k = 8 \<or> k = (9::nat)"
  by arith

lemma of_char_digit_char: "k < 10 \<Longrightarrow> (of_char (digit_char k) :: int) = 48 + int k"
  by (drule digit_char_cases) (auto simp: digit_char_def)

lemma is_decimal_digit_char: "k < 10 \<Longrightarrow> is_decimal (digit_char k)"
  by (simp add: is_decimal_def of_char_digit_char)

lemma digit_val_digit_char: "k < 10 \<Longrightarrow> digit_val (digit_char k) = int k"
  by (simp add: digit_val_def of_char_digit_char)


lemma last_digit_bound: "nat (n mod 10) < 10"
  by simp

lemma digit_val_last: "digit_val (digit_char (nat (n mod 10))) = n mod 10"
  by (simp add: digit_val_digit_char)

lemma digit_val_small: "0 \<le> k \<Longrightarrow> k < 10 \<Longrightarrow> digit_val (digit_char (nat k)) = k"
  by (simp add: digit_val_digit_char)

lemma digits_value_pad2: "0 \<le> n \<Longrightarrow> n < 100 \<Longrightarrow> digits_value (pad2 n) = n"
  by (simp add: digits_value_def pad2_def digit_val_last digit_val_small)

lemma digits_value_pad4:
  assumes "0 \<le> n" and "n < 10000" shows "digits_value (pad4 n) = n"
proof -
  have v: "digits_value (pad4 n) = 10 * (10 * (10 * (n div 1000 mod 10) + n div 100 mod 10) + n div 10 mod 10) + n mod 10"
    by (simp add: digits_value_def pad4_def digit_val_last)
  have e1: "n div 100 = n div 10 div 10" and e2: "n div 1000 = n div 100 div 10"
    by (simp_all add: zdiv_zmult2_eq)
  have a: "10 * (n div 10) + n mod 10 = n" by (rule mult_div_mod_eq)
  have b: "10 * (n div 100) + n div 10 mod 10 = n div 10"
    unfolding e1 by (rule mult_div_mod_eq)
  have c: "10 * (n div 1000) + n div 100 mod 10 = n div 100"
    unfolding e2 by (rule mult_div_mod_eq)
  have d: "n div 1000 mod 10 = n div 1000" using assms by simp
  show ?thesis unfolding v d by (simp only: a b c)
qed

lemma prepend_simps [simp]:
  "prepend m [] = []"
  "prepend m ((m', rest, caps) # xs) = (m @ m', rest, caps) # prepend m xs"
  "prepend m (xs @ ys) = prepend m xs @ prepend m ys"
  "prepend a (prepend b xs) = prepend (a @ b) xs"
  by (simp_all add: prepend_def case_prod_beta)



lemma first_match_simps [simp]:
  "first_match [] = None" "first_match (x # xs) = Some x"
  by (simp_all add: first_match_def)














lemma format_rx_error: "format_rx f = Inl e \<Longrightarrow> e = ValueError"
  by (induction f arbitrary: e rule: format_rx.induct)
     (auto split: if_splits list.splits option.splits sum.splits)

lemma strptime_error: "strptime s f = Inl e \<Longrightarrow> e = ValueError"
  by (auto simp: strptime_def Let_def dest: format_rx_error
      split: sum.splits list.splits prod.splits if_splits simp del: rx_seq.simps)

lemma strptime_valid: "strptime s f = Inr d \<Longrightarrow> valid_date d"
  by (auto simp: strptime_def Let_def
      split: sum.splits list.splits prod.splits if_splits simp del: rx_seq.simps)

lemma not_parses: "\<not> parses s f \<longleftrightarrow> strptime s f = Inl ValueError"
  by (auto simp: parses_def dest: strptime_error split: sum.splits)

lemma try_formats_none:
  "list_all (\<lambda>f. \<not> parses s f) fs \<Longrightarrow> try_formats s fs = Inr None"
  by (induction fs) (auto simp: not_parses)

lemma try_formats_result:
  "try_formats s fs = Inr None
   \<or> (\<exists>d. valid_date d \<and> try_formats s fs = Inr (Some (strftime_ymd d)))"
proof (induction fs)
  case Nil then show ?case by simp
next
  case (Cons f fs)
  show ?case
  proof (cases "strptime s f")
    case (Inl e)
    then have "e = ValueError" by (rule strptime_error)
    then show ?thesis using Inl Cons by simp
  next
    case (Inr d)
    then show ?thesis using strptime_valid [OF Inr] by auto
  qed
qed


lemma try_formats_with_year_none:
  "list_all (\<lambda>f. \<not> parses s f) fs \<Longrightarrow> try_formats_with_year s year fs = Inr None"
  by (induction fs) (auto simp: not_parses)

lemma replace_year_cases:
  "replace_year d y = Inl ValueError \<or> (\<exists>d'. valid_date d' \<and> replace_year d y = Inr d')"
  by (simp add: replace_year_def)

lemma try_formats_with_year_result:
  "try_formats_with_year s year fs = Inr None
   \<or> (\<exists>d. valid_date d \<and> try_formats_with_year s year fs = Inr (Some (strftime_ymd d)))"
proof (induction fs)
  case Nil then show ?case by simp
next
  case (Cons f fs)
  show ?case
  proof (cases "strptime s f")
    case (Inl e)
    then have "e = ValueError" by (rule strptime_error)
    then show ?thesis using Inl Cons by simp
  next
    case (Inr d)
    from replace_year_cases [of d year] show ?thesis
    proof
      assume "replace_year d year = Inl ValueError"
      then show ?thesis using Inr Cons by simp
    next
      assume "\<exists>d'. valid_date d' \<and> replace_year d year = Inr d'"
      then show ?thesis using Inr by auto
    qed
  qed
qed




lemma strftime_nonempty: "strftime_ymd d \<noteq> []"
  by (simp add: strftime_ymd_def pad4_def)


lemma parse_date_cases:
  "parse_date today s = strftime_ymd today \<or> (\<exists>d. valid_date d \<and> parse_date today s = strftime_ymd d)"
  using try_formats_result [of "str_strip s" full_formats]
  by (auto simp: parse_date_def)

lemma parse_date_unparseable:
  "s = [] \<or> no_full_format s \<Longrightarrow> parse_date today s = strftime_ymd today"
  by (auto simp: parse_date_def no_full_format_def try_formats_none)


lemma well_formed_strftime:
  assumes "valid_date d" shows "well_formed_date (strftime_ymd d)"
proof -
  obtain y m dd where d: "d = Date y m dd" by (cases d)
  from assms have y: "0 \<le> y" "y \<le> 9999" and m: "0 \<le> m" "m \<le> 12" and dd: "0 \<le> dd" "dd \<le> 31"
    by (auto simp: valid_date_def d days_in_month_def split: if_splits)
  have dec: "is_decimal (digit_char (nat (k mod 10)))" for k :: int by (simp add: is_decimal_digit_char)
  have t4: "take 4 (strftime_ymd d) = pad4 y" and t2: "take 2 (drop 5 (strftime_ymd d)) = pad2 m"
    and t3: "drop 8 (strftime_ymd d) = pad2 dd"
    by (simp_all add: strftime_ymd_def d pad4_def pad2_def)
  have shape: "iso_date_shape (strftime_ymd d)"
    unfolding iso_date_shape_def t4 t2 t3
    by (simp add: strftime_ymd_def pad4_def pad2_def dec)
  show ?thesis
    unfolding well_formed_date_def t4 t2 t3
    using shape assms y m dd by (simp add: digits_value_pad4 digits_value_pad2 d)
qed

lemma parse_date_well_formed:
  "valid_date today \<Longrightarrow> well_formed_date (parse_date today s)"
  using parse_date_cases [of today s] by (auto simp: well_formed_strftime)

lemma parse_date_with_year_unparseable:
  assumes "s = [] \<or> (no_yearless_format s \<and> no_full_format s)"
  shows "parse_date_with_year today s year = strftime_ymd today"
proof -
  have e: "list_all (\<lambda>f. \<not> parses [] f) yearless_formats" by code_simp
  have "list_all (\<lambda>f. \<not> parses s f) yearless_formats"
    using assms e by (auto simp: no_yearless_format_def)
  then have "try_formats_with_year s year yearless_formats = Inr None"
    by (rule try_formats_with_year_none)
  moreover have "parse_date today s = strftime_ymd today"
    using assms by (intro parse_date_unparseable) auto
  ultimately show ?thesis by (simp add: parse_date_with_year_def)
qed

section \<open>Facts about the parsers\<close>

lemma keep_rows_mem:
  "e \<in> set (keep_rows f rows) \<longleftrightarrow> (\<exists>r\<in>set rows. f r = Inr (Some e))"
  by (induction rows) (auto simp: keep_rows_def List.map_filter_def split: sum.splits)


lemma source2_row_Some:
  assumes "source2_row cfg today r = Inr (Some e)"
  shows "get_stripped r (csv2_id_field cfg) = Inr (order_id e) \<and> order_id e \<noteq> []
         \<and> numeric_token (order_id e)
         \<and> (\<exists>v. first_value r = Inr v \<and> v \<notin> set [''total'', ''summary'', ''subtotal'', ''grand total''])"
  using assms
  by (auto simp: source2_row_def Let_def split: sum.splits if_splits)


lemma dict_reader_sample:
  "dict_reader csv_sample =
     Inr [[(Some ''id'', Str ''1001''), (Some ''amt'', Str ''25.50''), (Some ''date'', Str ''2024-03-01'')],
          [(Some ''id'', Str ''Total''), (Some ''amt'', Str []), (Some ''date'', Str [])]]"
  by code_simp

lemma subtotal_row_skipped:
  assumes "first_value r = Inr ''subtotal''"
  shows "keep_rows (source2_row cfg today) [r] = []"
proof -
  have "\<not> (\<exists>x. x \<in> set (keep_rows (source2_row cfg today) [r]))"
  proof
    assume "\<exists>x. x \<in> set (keep_rows (source2_row cfg today) [r])"
    then obtain x where "source2_row cfg today r = Inr (Some x)" by (auto simp: keep_rows_mem)
    from source2_row_Some [OF this] assms show False by auto
  qed
  then show ?thesis by (cases "keep_rows (source2_row cfg today) [r]") auto
qed

lemma merge_head:
  "k0 \<notin> fst ` set kvs \<Longrightarrow>
   \<exists>d'. foldl (\<lambda>d (k, v). dict_set k v d) ((k0, v0) # d) kvs = (k0, v0) # d'"
proof (induction kvs arbitrary: d)
  case Nil
  then show ?case by simp
next
  case (Cons kv kvs)
  obtain k v where kv: "kv = (k, v)" by (cases kv)
  with Cons.prems have "k \<noteq> k0" and "k0 \<notin> fst ` set kvs" by auto
  then show ?case using Cons.IH [of "dict_set k v d"] by (simp add: kv)
qed

lemma fill_head:
  "k0 \<notin> Some ` set ks \<Longrightarrow>
   \<exists>d'. foldl (\<lambda>d k. dict_set (Some k) NoneVal d) ((k0, v0) # d) ks = (k0, v0) # d'"
proof (induction ks arbitrary: d)
  case Nil
  then show ?case by simp
next
  case (Cons k ks)
  then have "Some k \<noteq> k0" and "k0 \<notin> Some ` set ks" by auto
  then show ?case using Cons.IH [of "dict_set (Some k) NoneVal d"] by simp
qed

lemma first_value_dict_row:
  assumes "f \<notin> set fs"
  shows "first_value (dict_row (f # fs) (c # cs)) = Inr (str_lower (str_strip c))"
proof -
  have "Some f \<notin> fst ` set (zip (map Some fs) (map Str cs))"
    using assms by (auto dest!: set_zip_leftD)
  from merge_head [OF this, of "Str c" "[]"]
  obtain d' where d': "dict_of (zip (map Some (f # fs)) (map Str (c # cs))) = (Some f, Str c) # d'"
    by (auto simp: dict_of_def)
  have "Some f \<notin> Some ` set (drop (length (c # cs)) (f # fs))"
    using assms by (auto dest: in_set_dropD)
  from fill_head [OF this, of "Str c" d']
  obtain d'' where d'': "foldl (\<lambda>d k. dict_set (Some k) NoneVal d) ((Some f, Str c) # d')
      (drop (length (c # cs)) (f # fs)) = (Some f, Str c) # d''" by blast
  show ?thesis
    unfolding dict_row_def Let_def d'
    using d'' by (auto simp: first_value_def)
qed

lemma subtotal_excluded_distinct_header:
  assumes "f \<notin> set fs" and "str_lower (str_strip c) = ''subtotal''"
  shows "keep_rows (source2_row cfg today) [dict_row (f # fs) (c # cs)] = []"
  using first_value_dict_row [OF assms(1), of c cs] assms(2)
  by (intro subtotal_row_skipped) simp

text \<open>\<^verbatim>\<open>str.isdigit\<close> also holds for the superscript digits: such an id passes the test of
  the parsers, and its conversion with \<^verbatim>\<open>int\<close> raises in the reconciliation.\<close>

lemma numeric_token_superscript:
  "numeric_token [CHR 0xB2] \<and> id_number [CHR 0xB2] = Inl ValueError"
  by code_simp

section \<open>Reconciliation: identifiers that are not digit strings\<close>




section \<open>Reconciliation: two upserts of one order id\<close>

text \<open>
  C1, as stated for any store state, fails: when the store already holds two pages with
  the order id, the first of them is updated by both calls and the store still holds two.
\<close>

theorem upsert_twice_duplicates_counterexample:
  "numeric_token (order_id entry_first) \<and> order_id entry_second = order_id entry_first
   \<and> order_amount entry_second \<noteq> order_amount entry_first
   \<and> find_by_key (create_or_update_notion_entry default_config (Date 2024 3 1) entry_second
         (create_or_update_notion_entry default_config (Date 2024 3 1) entry_first
            store_duplicates)) ''Order ID'' 1001 = [0, 1]"
  by code_simp

text \<open>
  C1, amended: when no store request fails, the id property is named \<^verbatim>\<open>Order ID\<close>
  and the amount and id properties do not share their name with a later property, the
  order id is a numeric token whose number is \<open>k\<close>, and the store holds at most one page
  with number \<open>k\<close> before, then after two upserts with that order id the store holds
  exactly one page with number \<open>k\<close>, and its amount is the amount of the second call.
\<close>

theorem upsert_twice_one_record:
  assumes nf: "faults s = []" and ok: "property_names_ok cfg"
    and same: "order_id e2 = order_id e1"
    and num: "numeric_token (order_id e1)" and idn: "id_number (order_id e1) = Inr k"
    and one: "length (find_by_key s ''Order ID'' k) \<le> 1"
  shows "\<exists>pid ps. find_by_key (create_or_update_notion_entry cfg today e2
                      (create_or_update_notion_entry cfg today e1 s)) ''Order ID'' k = [pid]
           \<and> pages (create_or_update_notion_entry cfg today e2
                      (create_or_update_notion_entry cfg today e1 s)) pid = Some ps
           \<and> map_of ps (notion_amount_property cfg) = Some (Number (PFloat (order_amount e2)))"
proof -
  let ?s1 = "create_or_update_notion_entry cfg today e1 s"
  let ?s2 = "create_or_update_notion_entry cfg today e2 ?s1"
  have nb: "str_strip (order_id e1) \<noteq> []" using num by (rule numeric_token_nonblank)
  note e1 = upsert_effect [OF nf ok nb idn, of today]
  from e1 have nf1: "faults ?s1 = []" by simp
  have "\<exists>pid. find_by_key ?s1 ''Order ID'' k = [pid]"
    using e1 one by (cases "find_by_key s ''Order ID'' k") auto
  then obtain pid where f1: "find_by_key ?s1 ''Order ID'' k = [pid]" ..
  have nb2: "str_strip (order_id e2) \<noteq> []" and idn2: "id_number (order_id e2) = Inr k"
    using nb idn same by simp_all
  note e2 = upsert_effect [OF nf1 ok nb2 idn2, of today]
  have f2: "find_by_key ?s2 ''Order ID'' k = [pid]" using e2 by (simp add: f1)
  have "\<exists>ps. pages ?s2 (hd (find_by_key ?s2 ''Order ID'' k)) = Some ps
           \<and> map_of ps (notion_amount_property cfg) = Some (Number (PFloat (order_amount e2)))"
    using e2 by blast
  then obtain ps where "pages ?s2 pid = Some ps"
    and "map_of ps (notion_amount_property cfg) = Some (Number (PFloat (order_amount e2)))"
    unfolding f2 by auto
  with f2 show ?thesis by blast
qed


theorem upsert_twice_one_record_witness:
  "faults empty_store = [] \<and> property_names_ok default_config
   \<and> order_id entry_second = order_id entry_first
   \<and> numeric_token (order_id entry_first) \<and> id_number (order_id entry_first) = Inr 1001
   \<and> length (find_by_key empty_store ''Order ID'' 1001) \<le> 1
   \<and> (\<exists>pid ps. find_by_key (create_or_update_notion_entry default_config (Date 2024 3 1) entry_second
                      (create_or_update_notion_entry default_config (Date 2024 3 1) entry_first
                         empty_store)) ''Order ID'' 1001 = [pid]
           \<and> pages (create_or_update_notion_entry default_config (Date 2024 3 1) entry_second
                      (create_or_update_notion_entry default_config (Date 2024 3 1) entry_first
                         empty_store)) pid = Some ps
           \<and> map_of ps (notion_amount_property default_config)
               = Some (Number (PFloat (order_amount entry_second))))"
proof -
  have a: "faults empty_store = []" by (simp add: empty_store_def)
  have b: "property_names_ok default_config" by (simp add: property_names_ok_def default_config_def)
  have c: "order_id entry_second = order_id entry_first"
    by (simp add: entry_first_def entry_second_def)
  have d: "numeric_token (order_id entry_first)" by code_simp
  have e: "id_number (order_id entry_first) = Inr 1001" by code_simp
  have f: "length (find_by_key empty_store ''Order ID'' 1001) \<le> 1"
    by (simp add: find_by_key_def empty_store_def)
  from upsert_twice_one_record [OF a b c d e f, of "Date 2024 3 1"] a b c d e f
  show ?thesis by blast
qed

text \<open>
  The query is fixed to the property \<^verbatim>\<open>Order ID\<close> while the write uses the configured
  name: under a configuration that names the id property otherwise, the second upsert finds
  nothing and creates a second page.
\<close>

lemma upsert_twice_custom_id_property:
  "find_by_key (create_or_update_notion_entry config_custom_id (Date 2024 3 1) entry_second
      (create_or_update_notion_entry config_custom_id (Date 2024 3 1) entry_first empty_store))
      ''Order Number'' 1001 = [0, 1]"
  by code_simp

section \<open>The date normalizers\<close>



text \<open>
  C7: for every input string that is empty or that matches none of the supported date
  patterns, \<^verbatim>\<open>_parse_date\<close> and \<^verbatim>\<open>_parse_date_with_year\<close> both return the current date
  as a well-formed \<^verbatim>\<open>YYYY-MM-DD\<close> string, never the empty string. Both functions are total:
  every exception of their bodies is a branch of the model that returns a string.
\<close>

theorem unparseable_dates_well_formed:
  assumes "valid_date today"
  shows "(s = [] \<or> no_full_format s \<longrightarrow>
            parse_date today s = strftime_ymd today
          \<and> well_formed_date (parse_date today s) \<and> parse_date today s \<noteq> [])
       \<and> (s = [] \<or> (no_yearless_format s \<and> no_full_format s) \<longrightarrow>
            parse_date_with_year today s year = strftime_ymd today
          \<and> well_formed_date (parse_date_with_year today s year)
          \<and> parse_date_with_year today s year \<noteq> [])"
  using assms
  by (auto simp: parse_date_unparseable parse_date_with_year_unparseable
      well_formed_strftime strftime_nonempty)

theorem unparseable_dates_well_formed_witness:
  "valid_date (Date 2026 11 4) \<and> no_yearless_format ''not a date'' \<and> no_full_format ''not a date''
   \<and> parse_date (Date 2026 11 4) ''not a date'' = strftime_ymd (Date 2026 11 4)
   \<and> well_formed_date (parse_date (Date 2026 11 4) ''not a date'')
   \<and> parse_date_with_year (Date 2026 11 4) ''not a date'' 2026 = strftime_ymd (Date 2026 11 4)
   \<and> well_formed_date (parse_date_with_year (Date 2026 11 4) ''not a date'' 2026)
   \<and> well_formed_date (parse_date (Date 2026 11 4) [])
   \<and> well_formed_date (parse_date_with_year (Date 2026 11 4) [] 2026)
   \<and> strftime_ymd (Date 2026 11 4) = ''2026-11-04''"
proof -
  have v: "valid_date (Date 2026 11 4)" by code_simp
  have a: "no_yearless_format ''not a date''" by code_simp
  have b: "no_full_format ''not a date''" by code_simp
  have c: "strftime_ymd (Date 2026 11 4) = ''2026-11-04''" by code_simp
  from unparseable_dates_well_formed [OF v, of "''not a date''" 2026]
       unparseable_dates_well_formed [OF v, of "[]" 2026] v a b c
  show ?thesis by blast
qed




section \<open>Attachment extraction\<close>

text \<open>
  C2 says that \<^verbatim>\<open>extract_attachment\<close> scans the whole content tree in pre-order, nested
  sub-parts included. The function loops over the top-level parts only, while
  \<^verbatim>\<open>extract_body\<close> in \<^verbatim>\<open>extract_csv_link\<close> descends into sub-parts: for a message whose
  CSV attachment sits one level down, the result is \<^verbatim>\<open>None\<close> whatever the services
  return, although the tree holds a node named \<^verbatim>\<open>*.csv\<close> with an attachment id.
\<close>

theorem extract_attachment_nested_none:
  "extract_attachment sv msg_id nested_message = None
   \<and> csv_part \<in> set (tree_nodes (the nested_message)) \<and> csv_attachment_node csv_part"
  by (simp add: extract_attachment_def nested_message_def top_parts_def csv_part_def
      str_endswith_def csv_attachment_node_def)

text \<open>At the top level the same part is found, downloaded and decoded.\<close>

lemma extract_attachment_top_level:
  "extract_attachment plain_services msg_id flat_message = Some ''id,amt''"
  by (simp add: extract_attachment_def flat_message_def top_parts_def csv_part_def
      str_endswith_def plain_services_def)

section \<open>Link extraction\<close>

text \<open>
  C5, as stated, fails: the storage-domain pattern of the plain text asks for at least one
  URL character after \<^verbatim>\<open>s3.amazonaws.com\<close>. A URL that ends with the domain is not matched
  by it, and the keyword rule returns the \<^verbatim>\<open>export\<close> URL.
\<close>

theorem text_link_bare_host_counterexample:
  "str_contains ''s3.amazonaws.com'' ''https://bucket.s3.amazonaws.com''
   \<and> \<not> str_contains ''.csv'' ''https://bucket.s3.amazonaws.com''
   \<and> str_contains ''export'' ''https://example.com/export''
   \<and> find_link [] text_bare_host = Some ''https://example.com/export''"
  by code_simp

text \<open>
  C5, amended: when the HTML body is empty, the plain text has no match of the \<^verbatim>\<open>.csv\<close>
  pattern (step 3) and has a match of the storage-domain pattern (step 4: the domain token
  followed by at least one more URL character), the result is the first storage-domain
  match; the keyword rule (step 5) is not consulted, whatever URLs mention \<^verbatim>\<open>export\<close>.
\<close>

theorem text_storage_rule_first:
  assumes "findall_whole True text_csv_rx text = []"
    and "findall_whole True text_s3_rx text = u # us"
  shows "find_link [] text = Some u"
proof -
  have "text \<noteq> []" using assms(2) by (auto simp: findall_whole_def findall.simps)
  then show ?thesis using assms by (simp add: find_link_def text_link_def)
qed

theorem text_storage_rule_first_witness:
  "findall_whole True text_csv_rx text_with_path = []
   \<and> findall_whole True text_s3_rx text_with_path = [''https://bucket.s3.amazonaws.com/reports/today'']
   \<and> findall_whole False text_url_rx text_with_path
        = [''https://example.com/export'', ''https://bucket.s3.amazonaws.com/reports/today'']
   \<and> find_link [] text_with_path = Some ''https://bucket.s3.amazonaws.com/reports/today''"
proof -
  have a: "findall_whole True text_csv_rx text_with_path = []" by code_simp
  have b: "findall_whole True text_s3_rx text_with_path = [''https://bucket.s3.amazonaws.com/reports/today'']"
    by code_simp
  have c: "findall_whole False text_url_rx text_with_path
        = [''https://example.com/export'', ''https://bucket.s3.amazonaws.com/reports/today'']"
    by code_simp
  from text_storage_rule_first [OF a b] a b c show ?thesis by simp
qed

text \<open>For a message whose only part is plain text, \<^verbatim>\<open>extract_csv_link\<close> is that search on
  the decoded text.\<close>

lemma extract_csv_link_plain_text:
  assumes "d \<noteq> []" and "urlsafe_b64decode sv d = Inr bytes" and "utf8_decode_ignore sv bytes = text"
    and "text \<noteq> []"
  shows "extract_csv_link sv (Some (Part mt fn b (Some [Part (Some ''text/plain'') fn'
            (Some \<lparr> b_attachment_id = None, b_data = Some d \<rparr>) None])))
         = find_link [] text"
  using assms
  by (simp add: extract_csv_link_def top_parts_def body_data_def decode_ignore_def direct_body_def)

section \<open>The parsers\<close>



text \<open>
  C9: with the field mapping amount \<^verbatim>\<open>amt\<close>, id \<^verbatim>\<open>id\<close>, date \<^verbatim>\<open>date\<close>, the first parser
  turns the three-line sample into exactly one record: order id \<^verbatim>\<open>1001\<close>, amount 25.50,
  date \<^verbatim>\<open>2024-03-01\<close>.
\<close>

theorem parse_sample_one_record:
  assumes "csv1_amount_field cfg = Some ''amt''" and "csv1_id_field cfg = Some ''id''"
    and "csv1_date_field cfg = Some ''date''"
  shows "parse_csv_source1 cfg today csv_sample
         = Inr [\<lparr> source = csv1_source_name cfg, order_amount = Fin (51 / 2),
                   order_id = ''1001'', order_date = ''2024-03-01'' \<rparr>]"
proof -
  have n1: "numeric_token ''1001''" by code_simp
  have n2: "\<not> numeric_token ''Total''" by code_simp
  have s1: "str_strip ''1001'' = ''1001''" "str_strip ''2024-03-01'' = ''2024-03-01''"
    "str_strip ''Total'' = ''Total''" "str_strip [] = []" by code_simp+
  have f: "py_float ''25.50'' = Inr (Fin (51 / 2))" by code_simp
  have d: "parse_date today ''2024-03-01'' = ''2024-03-01''" by code_simp
  show ?thesis
    by (simp add: parse_csv_source1_def dict_reader_sample keep_rows_def List.map_filter_def
        source1_row_def get_stripped_def get_float_def assms n1 n2 s1 f d)
qed

theorem parse_sample_one_record_witness:
  "csv1_amount_field config_fields = Some ''amt'' \<and> csv1_id_field config_fields = Some ''id''
   \<and> csv1_date_field config_fields = Some ''date''
   \<and> parse_csv_source1 config_fields (Date 2026 11 4) csv_sample
         = Inr [\<lparr> source = ''Source1'', order_amount = Fin (51 / 2),
                   order_id = ''1001'', order_date = ''2024-03-01'' \<rparr>]"
proof -
  have a: "csv1_amount_field config_fields = Some ''amt''" "csv1_id_field config_fields = Some ''id''"
     "csv1_date_field config_fields = Some ''date''" "csv1_source_name config_fields = ''Source1''"
    by (simp_all add: config_fields_def default_config_def)
  from parse_sample_one_record [OF a(1-3), of "Date 2026 11 4"] a show ?thesis by simp
qed

text \<open>
  C6 says that the second parser, with one banner row skipped, excludes every data row
  whose first column is \<^verbatim>\<open>Subtotal\<close>. The parser tests the first value of the row
  dictionary, which is the first column only when the first header name is not repeated:
  under the header \<^verbatim>\<open>label,id,date,label\<close> the row \<^verbatim>\<open>Subtotal,1001,3/4,x\<close> is kept.
\<close>

theorem subtotal_row_repeated_header:
  "csv2_skip_rows config_fields = 1
   \<and> parse_csv_source2 config_fields (Date 2026 11 4) csv_repeated_header
      = Inr [\<lparr> source = ''Source2'', order_amount = Fin 0, order_id = ''1001'',
                order_date = ''2026-03-04'' \<rparr>]"
  by code_simp

end
